theory Spec2Isabelle
  imports Complex_Main
begin

section \<open>Strings and decoded JSON values\<close>

text \<open>
  Lines and identifiers are JavaScript strings. They are modelled as \<open>string\<close>, one
  \<open>char\<close> per code unit, so only code units below 256 are represented. Of the
  characters that \<open>String.prototype.trim\<close> removes, the ones in that range are
  TAB, LF, VT, FF, CR, SPACE and NBSP.
\<close>

definition is_ws :: "char \<Rightarrow> bool" where
  "is_ws c = (c \<in> set [CHR 0x09, CHR 0x0A, CHR 0x0B, CHR 0x0C, CHR 0x0D, CHR 0x20, CHR 0xA0])"

definition trim :: "string \<Rightarrow> string" where
  "trim s = rev (dropWhile is_ws (rev (dropWhile is_ws s)))"

fun startsWith :: "string \<Rightarrow> string \<Rightarrow> bool" where
  "startsWith s [] = True"
| "startsWith [] (p # ps) = False"
| "startsWith (c # cs) (p # ps) = (c = p \<and> startsWith cs ps)"

fun includes_str :: "string \<Rightarrow> string \<Rightarrow> bool" where
  "includes_str [] p = (p = [])"
| "includes_str (c # cs) p = (startsWith (c # cs) p \<or> includes_str cs p)"

text \<open>\<open>s.split(',')\<close>: the pieces between commas; never an empty array.\<close>

fun split_comma :: "string \<Rightarrow> string list" where
  "split_comma [] = [[]]"
| "split_comma (c # cs) =
     (if c = CHR '','' then [] # split_comma cs
      else (case split_comma cs of
              [] \<Rightarrow> [[c]]
            | w # ws \<Rightarrow> (c # w) # ws))"

text \<open>Decimal rendering of a line number, as a template literal does it.\<close>

definition digit_char :: "nat \<Rightarrow> char" where
  "digit_char d = ''0123456789'' ! d"

function show_nat :: "nat \<Rightarrow> string" where
  "show_nat n = (if n < 10 then [digit_char n] else show_nat (n div 10) @ [digit_char (n mod 10)])"
  by pat_completeness auto
termination
  by (relation "measure (\<lambda>n. n)") auto

declare show_nat.simps [simp del]

definition show_int :: "int \<Rightarrow> string" where
  "show_int i = (if i < 0 then CHR ''-'' # show_nat (nat (- i)) else show_nat (nat i))"

text \<open>\<open>xs.join(', ')\<close>.\<close>

fun join_comma :: "string list \<Rightarrow> string" where
  "join_comma [] = []"
| "join_comma [x] = x"
| "join_comma (x # y # ys) = x @ '', '' @ join_comma (y # ys)"

text \<open>
  A value as \<open>JSON.parse\<close> or a parser produces it. An object is its list of
  key/value pairs; the enumeration order of keys plays no role below.
\<close>

datatype json =
    JNull
  | JBool bool
  | JNum real
  | JStr string
  | JArr "json list"
  | JObj "(string \<times> json) list"

text \<open>\<open>!data\<close>, \<open>typeof data\<close> and \<open>Object.keys(data)\<close>.\<close>

fun falsy :: "json \<Rightarrow> bool" where
  "falsy JNull = True"
| "falsy (JBool b) = (\<not> b)"
| "falsy (JNum x) = (x = 0)"
| "falsy (JStr s) = (s = [])"
| "falsy (JArr xs) = False"
| "falsy (JObj kvs) = False"

fun typeof :: "json \<Rightarrow> string" where
  "typeof JNull = ''object''"
| "typeof (JBool b) = ''boolean''"
| "typeof (JNum x) = ''number''"
| "typeof (JStr s) = ''string''"
| "typeof (JArr xs) = ''object''"
| "typeof (JObj kvs) = ''object''"

text \<open>
  \<open>Object.keys\<close> is only reached for a truthy value of type object; on the other
  values the table follows JavaScript where it is defined (\<open>null\<close> would throw and
  is given no keys).
\<close>

fun Object_keys :: "json \<Rightarrow> string list" where
  "Object_keys (JArr xs) = map show_nat [0..<length xs]"
| "Object_keys (JObj kvs) = remdups (map fst kvs)"
| "Object_keys (JStr s) = map show_nat [0..<length s]"
| "Object_keys JNull = []"
| "Object_keys (JBool b) = []"
| "Object_keys (JNum x) = []"

section \<open>Line parser (lineParser.js)\<close>

text \<open>
  A parser returns \<open>null\<close> (\<open>None\<close>), a success object or a failure object.
\<close>

datatype parsed =
    Success nat json
  | Failure nat string string

fun success :: "parsed \<Rightarrow> bool" where
  "success (Success n d) = True"
| "success (Failure n e raw) = False"

text \<open>
  \<open>JSON.parse\<close> is the runtime's: it is a parameter, returning the decoded value or
  the message of the \<open>SyntaxError\<close> it throws.
\<close>

type_synonym json_parse = "string \<Rightarrow> string + json"

definition parseJsonLine :: "json_parse \<Rightarrow> string \<Rightarrow> nat \<Rightarrow> parsed option" where
  "parseJsonLine JSON_parse line lineNumber =
     (let trimmed = trim line in
      if trimmed = [] then None
      else (case JSON_parse trimmed of
              Inr parsed \<Rightarrow> Some (Success lineNumber parsed)
            | Inl message \<Rightarrow> Some (Failure lineNumber message (take 200 line))))"

text \<open>\<open>obj[header] = value\<close> on an object held as a list of pairs.\<close>

fun obj_set :: "(string \<times> json) list \<Rightarrow> string \<Rightarrow> json \<Rightarrow> (string \<times> json) list" where
  "obj_set [] k v = [(k, v)]"
| "obj_set ((k', v') # kvs) k v =
     (if k' = k then (k, v) # kvs else (k', v') # obj_set kvs k v)"

text \<open>\<open>values[idx] || null\<close>: a missing or empty cell becomes \<open>null\<close>.\<close>

definition cell_or_null :: "string list \<Rightarrow> nat \<Rightarrow> json" where
  "cell_or_null values idx =
     (if idx < length values \<and> values ! idx \<noteq> [] then JStr (values ! idx) else JNull)"

fun zip_headers :: "string list \<Rightarrow> nat \<Rightarrow> string list \<Rightarrow> (string \<times> json) list \<Rightarrow> (string \<times> json) list" where
  "zip_headers [] idx values obj = obj"
| "zip_headers (header # hs) idx values obj =
     zip_headers hs (Suc idx) values (obj_set obj header (cell_or_null values idx))"

text \<open>
  The \<open>try\<close> block of \<open>parseCsvLine\<close> contains no operation that throws on a
  string line and a header array, so its \<open>catch\<close> branch has no counterpart here.
\<close>

definition parseCsvLine :: "string \<Rightarrow> nat \<Rightarrow> string list option \<Rightarrow> parsed option" where
  "parseCsvLine line lineNumber headers =
     (let trimmed = trim line in
      if trimmed = [] then None
      else let values = map trim (split_comma trimmed) in
        (case headers of
           Some hs \<Rightarrow> Some (Success lineNumber (JObj (zip_headers hs 0 values [])))
         | None \<Rightarrow> Some (Success lineNumber (JArr (map JStr values)))))"

definition parseTextLine :: "string \<Rightarrow> nat \<Rightarrow> parsed option" where
  "parseTextLine line lineNumber =
     (let trimmed = trim line in
      if trimmed = [] then None
      else Some (Success lineNumber (JObj [(''text'', JStr line)])))"

text \<open>\<open>result && result.success\<close>.\<close>

fun ok_result :: "parsed option \<Rightarrow> bool" where
  "ok_result None = False"
| "ok_result (Some r) = success r"

definition parseLineAuto :: "json_parse \<Rightarrow> string \<Rightarrow> nat \<Rightarrow> parsed option" where
  "parseLineAuto JSON_parse line lineNumber =
     (let trimmed = trim line in
      if trimmed = [] then None
      else
        let r1 = (if startsWith trimmed ''{'' \<or> startsWith trimmed ''[''
                  then parseJsonLine JSON_parse line lineNumber else None) in
        if ok_result r1 then r1
        else
          let r2 = (if includes_str trimmed '','' then parseCsvLine line lineNumber None else None) in
          if ok_result r2 then r2
          else parseTextLine line lineNumber)"

text \<open>
  \<open>getParser\<close> returns one of the four functions; the choice is a tag here and
  \<open>run_parser\<close> is the call \<open>parseLineFn(line, lineNumber)\<close> of the worker, which
  passes no headers. Lower-casing covers the ASCII letters.
\<close>

datatype parser = JsonParser | CsvParser | TextParser | AutoParser

fun index_of :: "char \<Rightarrow> string \<Rightarrow> nat \<Rightarrow> nat option" where
  "index_of c [] i = None"
| "index_of c (d # ds) i = (if c = d then Some i else index_of c ds (Suc i))"

definition lower_char :: "char \<Rightarrow> char" where
  "lower_char c =
     (case index_of c ''ABCDEFGHIJKLMNOPQRSTUVWXYZ'' 0 of
        None \<Rightarrow> c
      | Some i \<Rightarrow> ''abcdefghijklmnopqrstuvwxyz'' ! i)"

definition toLowerCase :: "string \<Rightarrow> string" where
  "toLowerCase s = map lower_char s"

definition getParser :: "string option \<Rightarrow> parser" where
  "getParser contentType =
     (let type = toLowerCase (case contentType of None \<Rightarrow> [] | Some s \<Rightarrow> s) in
      if includes_str type ''json'' then JsonParser
      else if includes_str type ''csv'' then CsvParser
      else if includes_str type ''text'' then TextParser
      else AutoParser)"

fun run_parser :: "json_parse \<Rightarrow> parser \<Rightarrow> string \<Rightarrow> nat \<Rightarrow> parsed option" where
  "run_parser jp JsonParser line n = parseJsonLine jp line n"
| "run_parser jp CsvParser line n = parseCsvLine line n None"
| "run_parser jp TextParser line n = parseTextLine line n"
| "run_parser jp AutoParser line n = parseLineAuto jp line n"

definition validateParsedData :: "json \<Rightarrow> bool" where
  "validateParsedData data =
     (if falsy data \<or> typeof data \<noteq> ''object'' then False
      else if length (Object_keys data) = 0 then False
      else True)"

section \<open>Configuration (config.js)\<close>

text \<open>The numeric settings are what \<open>parseInt\<close> returned: any integer.\<close>

record config =
  maxFileSize :: int
  allowedFileTypes :: "string list"
  jobBatchSize :: int
  jobWritePauseMs :: int
  jobLockTimeoutMs :: int
  jobStaleThresholdMs :: int
  maxJobAttempts :: int

definition default_config :: config where
  "default_config =
     \<lparr>maxFileSize = 5368709120,
      allowedFileTypes = [''text/plain'', ''application/json'', ''text/csv''],
      jobBatchSize = 1000, jobWritePauseMs = 50, jobLockTimeoutMs = 300000,
      jobStaleThresholdMs = 600000, maxJobAttempts = 3\<rparr>"

section \<open>Job queue (jobModel.js)\<close>

text \<open>
  An \<open>ObjectId\<close> is a 96-bit number, a \<open>Date\<close> is its millisecond count. Every
  clock read of the source (\<open>new Date()\<close>, \<open>Date.now()\<close>) is an argument of the
  model, in the order the source reads them, and so is the fresh identifier of
  \<open>createJob\<close>.
\<close>

type_synonym objectId = nat
type_synonym date = int

datatype job_state = Queued | InProgress | Completed | Failed

record job_progress =
  p_linesProcessed :: nat
  p_recordsInserted :: nat
  p_errors :: nat

text \<open>
  The \<open>result\<close> field: the statistics object the worker passes to \<open>completeJob\<close>,
  or an error message with an optional stack.
\<close>

datatype job_result =
    ResultStats nat nat nat bool
  | ResultError string "string option"

record job =
  job_id :: objectId
  fileId :: objectId
  state :: job_state
  attempts :: int
  queuedAt :: date
  startedAt :: "date option"
  finishedAt :: "date option"
  workerId :: "string option"
  lockUntil :: "date option"
  progress :: job_progress
  errors :: "(string \<times> date) list"
  result :: "job_result option"

text \<open>
  The collection is the list of its documents in the order the store enumerates them;
  \<open>insertOne\<close> appends and refuses an \<open>_id\<close> that is already present.
\<close>

datatype db_error = DuplicateKey

text \<open>The message of the driver's error for a refused insert, abbreviated.\<close>

definition duplicate_key_message :: string where
  "duplicate_key_message = ''E11000 duplicate key error''"

definition createJob :: "objectId \<Rightarrow> objectId \<Rightarrow> date \<Rightarrow> job list \<Rightarrow> db_error + (job list \<times> job)" where
  "createJob new_id fid now db =
     (let jobDoc = \<lparr>job_id = new_id, fileId = fid, state = Queued, attempts = 0,
                     queuedAt = now, startedAt = None, finishedAt = None, workerId = None,
                     lockUntil = None,
                     progress = \<lparr>p_linesProcessed = 0, p_recordsInserted = 0, p_errors = 0\<rparr>,
                     errors = [], result = None\<rparr>
      in if new_id \<in> set (map job_id db) then Inl DuplicateKey
         else Inr (db @ [jobDoc], jobDoc))"

definition getJobById :: "objectId \<Rightarrow> job list \<Rightarrow> job option" where
  "getJobById jobId db = find (\<lambda>j. job_id j = jobId) db"

text \<open>
  \<open>findOneAndUpdate({state: 'queued'}, ..., {sort: {queuedAt: 1}})\<close>: the position of
  the document taken. The sort has the single key \<open>queuedAt\<close>; among documents with
  the same least \<open>queuedAt\<close> the first in the store's enumeration order is taken.
\<close>

fun oldest_queued :: "job list \<Rightarrow> nat option" where
  "oldest_queued [] = None"
| "oldest_queued (j # js) =
     (case oldest_queued js of
        None \<Rightarrow> (if state j = Queued then Some 0 else None)
      | Some i \<Rightarrow> (if state j = Queued \<and> queuedAt j \<le> queuedAt (js ! i) then Some 0
                   else Some (Suc i)))"

definition claim_update :: "config \<Rightarrow> string \<Rightarrow> date \<Rightarrow> date \<Rightarrow> job \<Rightarrow> job" where
  "claim_update cfg worker_id now now_lock j =
     j\<lparr>state := InProgress, workerId := Some worker_id, startedAt := Some now,
       lockUntil := Some (now_lock + jobLockTimeoutMs cfg), attempts := attempts j + 1\<rparr>"

definition claimJob :: "config \<Rightarrow> string \<Rightarrow> date \<Rightarrow> date \<Rightarrow> job list \<Rightarrow> job list \<times> job option" where
  "claimJob cfg worker_id now now_lock db =
     (case oldest_queued db of
        None \<Rightarrow> (db, None)
      | Some i \<Rightarrow>
          (let j' = claim_update cfg worker_id now now_lock (db ! i)
           in (db[i := j'], Some j')))"

text \<open>\<open>updateOne\<close> changes the first document that matches, \<open>updateMany\<close> all of them.\<close>

fun updateOne :: "(job \<Rightarrow> bool) \<Rightarrow> (job \<Rightarrow> job) \<Rightarrow> job list \<Rightarrow> job list" where
  "updateOne P f [] = []"
| "updateOne P f (j # js) = (if P j then f j # js else j # updateOne P f js)"

definition updateMany :: "(job \<Rightarrow> bool) \<Rightarrow> (job \<Rightarrow> job) \<Rightarrow> job list \<Rightarrow> job list" where
  "updateMany P f db = map (\<lambda>j. if P j then f j else j) db"

definition updateJobProgress :: "config \<Rightarrow> objectId \<Rightarrow> job_progress \<Rightarrow> date \<Rightarrow> job list \<Rightarrow> job list" where
  "updateJobProgress cfg jobId p now db =
     updateOne (\<lambda>j. job_id j = jobId)
       (\<lambda>j. j\<lparr>progress := p, lockUntil := Some (now + jobLockTimeoutMs cfg)\<rparr>) db"

definition completeJob :: "objectId \<Rightarrow> job_result \<Rightarrow> date \<Rightarrow> job list \<Rightarrow> job list" where
  "completeJob jobId res now db =
     updateOne (\<lambda>j. job_id j = jobId)
       (\<lambda>j. j\<lparr>state := Completed, finishedAt := Some now, result := Some res\<rparr>) db"

definition failJob :: "objectId \<Rightarrow> string \<Rightarrow> string option \<Rightarrow> date \<Rightarrow> job list \<Rightarrow> job list" where
  "failJob jobId message stack now db =
     updateOne (\<lambda>j. job_id j = jobId)
       (\<lambda>j. j\<lparr>state := Failed, finishedAt := Some now,
              result := Some (ResultError message stack)\<rparr>) db"

text \<open>\<open>$push\<close> with \<open>$slice: -100\<close> keeps the last hundred entries.\<close>

definition slice_last :: "nat \<Rightarrow> 'a list \<Rightarrow> 'a list" where
  "slice_last k xs = drop (length xs - k) xs"

definition addJobError :: "objectId \<Rightarrow> string \<Rightarrow> date \<Rightarrow> job list \<Rightarrow> job list" where
  "addJobError jobId message now db =
     updateOne (\<lambda>j. job_id j = jobId)
       (\<lambda>j. j\<lparr>errors := slice_last 100 (errors j @ [(message, now)]),
              progress := (progress j)\<lparr>p_errors := p_errors (progress j) + 1\<rparr>\<rparr>) db"

text \<open>\<open>{field: {$lt: d}}\<close> does not match a \<open>null\<close> field.\<close>

fun date_lt :: "date option \<Rightarrow> date \<Rightarrow> bool" where
  "date_lt None d = False"
| "date_lt (Some x) d = (x < d)"

definition stale :: "date \<Rightarrow> date \<Rightarrow> job \<Rightarrow> bool" where
  "stale now staleThreshold j =
     (state j = InProgress \<and> (date_lt (lockUntil j) now \<or> date_lt (startedAt j) staleThreshold))"

definition stale_message :: string where
  "stale_message = ''Job exceeded maximum attempts and became stale''"

text \<open>
  \<open>resetStaleJobs\<close> reads the clock four times: for the stale threshold, for the
  filter of the first sweep, and for the filter and the \<open>finishedAt\<close> of the second.
  It returns the collection and the two modified counts.
\<close>

definition resetStaleJobs ::
  "config \<Rightarrow> date \<Rightarrow> date \<Rightarrow> date \<Rightarrow> date \<Rightarrow> job list \<Rightarrow> job list \<times> nat \<times> nat" where
  "resetStaleJobs cfg now_thr now_reset now_fail now_fin db =
     (let staleThreshold = now_thr - jobStaleThresholdMs cfg;
          to_reset = (\<lambda>j. stale now_reset staleThreshold j \<and> attempts j < maxJobAttempts cfg);
          db1 = updateMany to_reset
                  (\<lambda>j. j\<lparr>state := Queued, workerId := None, lockUntil := None\<rparr>) db;
          to_fail = (\<lambda>j. stale now_fail staleThreshold j \<and> attempts j \<ge> maxJobAttempts cfg);
          db2 = updateMany to_fail
                  (\<lambda>j. j\<lparr>state := Failed, finishedAt := Some now_fin,
                         result := Some (ResultError stale_message None)\<rparr>) db1
      in (db2, length (filter to_reset db), length (filter to_fail db1)))"

text \<open>A sequence of queue operations, each with the values it reads from its caller and the clock.\<close>

datatype queue_op =
    Create objectId objectId date
  | Claim string date date
  | UpdateProgress objectId job_progress date
  | Complete objectId job_result date
  | Fail objectId string "string option" date
  | AppendError objectId string date
  | RecoverStale date date date date

fun apply_op :: "config \<Rightarrow> queue_op \<Rightarrow> job list \<Rightarrow> job list" where
  "apply_op cfg (Create new_id fid now) db =
     (case createJob new_id fid now db of Inl e \<Rightarrow> db | Inr (db', j) \<Rightarrow> db')"
| "apply_op cfg (Claim w now now_lock) db = fst (claimJob cfg w now now_lock db)"
| "apply_op cfg (UpdateProgress jobId p now) db = updateJobProgress cfg jobId p now db"
| "apply_op cfg (Complete jobId res now) db = completeJob jobId res now db"
| "apply_op cfg (Fail jobId message stack now) db = failJob jobId message stack now db"
| "apply_op cfg (AppendError jobId message now) db = addJobError jobId message now db"
| "apply_op cfg (RecoverStale t1 t2 t3 t4) db = fst (resetStaleJobs cfg t1 t2 t3 t4 db)"

fun run_ops :: "config \<Rightarrow> queue_op list \<Rightarrow> job list \<Rightarrow> job list" where
  "run_ops cfg [] db = db"
| "run_ops cfg (operation # ops) db = run_ops cfg ops (apply_op cfg operation db)"

definition job_state_of :: "job list \<Rightarrow> objectId \<Rightarrow> job_state option" where
  "job_state_of db jobId = map_option state (getJobById jobId db)"

fun terminal :: "job_state \<Rightarrow> bool" where
  "terminal Completed = True"
| "terminal Failed = True"
| "terminal Queued = False"
| "terminal InProgress = False"

text \<open>The operations that name the job \<open>jobId\<close> as the one to complete or to fail.\<close>

fun finishes :: "objectId \<Rightarrow> queue_op \<Rightarrow> bool" where
  "finishes jobId (Complete k res now) = (k = jobId)"
| "finishes jobId (Fail k message stack now) = (k = jobId)"
| "finishes jobId operation = False"

section \<open>File catalog (fileModel.js)\<close>

record file_record =
  file_id :: objectId
  s3Key :: string
  originalName :: string
  file_size :: nat
  contentType :: "string option"
  uploadedAt :: date
  status :: string

text \<open>
  \<open>insertOne\<close> into \<open>files\<close>, which has a unique index on \<open>s3Key\<close> besides the
  one on \<open>_id\<close>.
\<close>

definition createFile ::
  "objectId \<Rightarrow> date \<Rightarrow> string \<Rightarrow> string \<Rightarrow> nat \<Rightarrow> string \<Rightarrow> file_record list
     \<Rightarrow> db_error + (file_record list \<times> file_record)" where
  "createFile new_id now key name sz mimeType files =
     (let fileDoc = \<lparr>file_id = new_id, s3Key = key, originalName = name, file_size = sz,
                      contentType = Some mimeType, uploadedAt = now, status = ''uploaded''\<rparr>
      in if new_id \<in> set (map file_id files) \<or> key \<in> set (map s3Key files)
         then Inl DuplicateKey
         else Inr (files @ [fileDoc], fileDoc))"

definition getFileById :: "objectId \<Rightarrow> file_record list \<Rightarrow> file_record option" where
  "getFileById fid files = find (\<lambda>f. file_id f = fid) files"

section \<open>Processing worker (worker.js)\<close>

text \<open>
  The worker's calls to its collaborators are recorded in the order it makes them, each
  write with its outcome (\<open>True\<close>: the awaited call returned, \<open>False\<close>: it threw).
\<close>

record parsed_record =
  r_fileId :: objectId
  r_jobId :: objectId
  r_lineNumber :: nat
  r_data :: json
  r_processedAt :: date

datatype job_failure = FileNotFound objectId | Thrown string

datatype effect =
    AddJobError objectId string bool
  | InsertMany "parsed_record list" bool
  | UpdateJobProgress objectId job_progress bool
  | Sleep int
  | CompleteJob objectId job_result bool
  | UpdateFileStatus objectId string bool
  | FailJob objectId job_failure

text \<open>
  What the environment answers while one line is handled (or while \<open>flush\<close> runs):
  the clock, the outcome of the \<open>addJobError\<close> call of the line's own branch and of
  the one in the outer \<open>catch\<close>, of \<open>insertMany\<close> and of \<open>updateJobProgress\<close>,
  and the message of the error a failing call throws.
\<close>

record line_io =
  clock :: date
  addErrorOk :: bool
  addErrorRetryOk :: bool
  insertOk :: bool
  progressOk :: bool
  thrownMessage :: string

text \<open>The closure variables of \<open>processJob\<close>, and the calls made so far.\<close>

record worker =
  lineNumber :: nat
  linesProcessed :: nat
  recordsInserted :: nat
  errorCount :: nat
  batch :: "parsed_record list"
  effects :: "effect list"

definition init_worker :: worker where
  "init_worker =
     \<lparr>lineNumber = 0, linesProcessed = 0, recordsInserted = 0, errorCount = 0,
      batch = [], effects = []\<rparr>"

definition emit :: "effect \<Rightarrow> worker \<Rightarrow> worker" where
  "emit e st = st\<lparr>effects := effects st @ [e]\<rparr>"

definition current_progress :: "worker \<Rightarrow> job_progress" where
  "current_progress st =
     \<lparr>p_linesProcessed = linesProcessed st, p_recordsInserted = recordsInserted st,
      p_errors = errorCount st\<rparr>"

text \<open>
  \<open>errorCount++; await addJobError(...); callback(); return\<close>. When the awaited call
  throws, control passes to the outer \<open>catch\<close> (\<open>Inl\<close>) with the counter already
  incremented.
\<close>

definition count_line_error :: "objectId \<Rightarrow> string \<Rightarrow> line_io \<Rightarrow> worker \<Rightarrow> worker + worker" where
  "count_line_error jobId message io st =
     (let st1 = emit (AddJobError jobId message (addErrorOk io))
                  (st\<lparr>errorCount := errorCount st + 1\<rparr>)
      in if addErrorOk io then Inr st1 else Inl st1)"

text \<open>
  The inner \<open>try\<close>/\<open>catch\<close> around the bulk insert of a full batch. A throw of
  \<open>insertMany\<close> or of \<open>updateJobProgress\<close> lands in the same \<open>catch\<close>.
\<close>

definition write_batch :: "config \<Rightarrow> objectId \<Rightarrow> line_io \<Rightarrow> worker \<Rightarrow> worker" where
  "write_batch cfg jobId io st =
     (let st1 = emit (InsertMany (batch st) (insertOk io)) st in
      if \<not> insertOk io
      then st1\<lparr>errorCount := errorCount st1 + length (batch st1), batch := []\<rparr>
      else
        let st2 = st1\<lparr>recordsInserted := recordsInserted st1 + length (batch st1)\<rparr>;
            st3 = emit (UpdateJobProgress jobId (current_progress st2) (progressOk io)) st2 in
        if \<not> progressOk io
        then st3\<lparr>errorCount := errorCount st3 + length (batch st3), batch := []\<rparr>
        else
          let st4 = st3\<lparr>batch := []\<rparr> in
          if jobWritePauseMs cfg > 0 then emit (Sleep (jobWritePauseMs cfg)) st4 else st4)"

text \<open>The body of the outer \<open>try\<close> of \<open>transform\<close>, after \<open>lineNumber++\<close>.\<close>

definition transform_body ::
  "config \<Rightarrow> json_parse \<Rightarrow> parser \<Rightarrow> objectId \<Rightarrow> objectId \<Rightarrow> string \<Rightarrow> line_io \<Rightarrow> worker
     \<Rightarrow> worker + worker" where
  "transform_body cfg jp parseLineFn fid jobId line io st =
     (case run_parser jp parseLineFn line (lineNumber st) of
        None \<Rightarrow> Inr st
      | Some (Failure n err raw) \<Rightarrow>
          count_line_error jobId (''Line '' @ show_nat n @ '': '' @ err) io st
      | Some (Success n d) \<Rightarrow>
          if \<not> validateParsedData d
          then count_line_error jobId (''Line '' @ show_nat n @ '': Invalid data format'') io st
          else
            let st1 = st\<lparr>linesProcessed := linesProcessed st + 1,
                         batch := batch st @
                           [\<lparr>r_fileId = fid, r_jobId = jobId, r_lineNumber = n,
                             r_data = d, r_processedAt = clock io\<rparr>]\<rparr>
            in if int (length (batch st1)) \<ge> jobBatchSize cfg
               then Inr (write_batch cfg jobId io st1)
               else Inr st1)"

text \<open>
  \<open>transform\<close>. In the outer \<open>catch\<close> the error is counted and logged once more; if
  that \<open>addJobError\<close> throws too, the handler's promise rejects, \<open>callback\<close> is never
  called and the stream makes no further progress: \<open>None\<close>.
\<close>

definition transform ::
  "config \<Rightarrow> json_parse \<Rightarrow> parser \<Rightarrow> objectId \<Rightarrow> objectId \<Rightarrow> worker \<Rightarrow> string \<times> line_io
     \<Rightarrow> worker option" where
  "transform cfg jp parseLineFn fid jobId st input =
     (let line = fst input; io = snd input;
          st1 = st\<lparr>lineNumber := lineNumber st + 1\<rparr> in
      case transform_body cfg jp parseLineFn fid jobId line io st1 of
        Inr st2 \<Rightarrow> Some st2
      | Inl st2 \<Rightarrow>
          (let st3 = emit (AddJobError jobId
                             (''Line '' @ show_nat (lineNumber st2) @ '': '' @ thrownMessage io)
                             (addErrorRetryOk io))
                       (st2\<lparr>errorCount := errorCount st2 + 1\<rparr>)
           in if addErrorRetryOk io then Some st3 else None))"

definition flush :: "objectId \<Rightarrow> line_io \<Rightarrow> worker \<Rightarrow> worker" where
  "flush jobId io st =
     (if length (batch st) > 0
      then
        let st1 = emit (InsertMany (batch st) (insertOk io)) st in
        if \<not> insertOk io
        then st1\<lparr>errorCount := errorCount st1 + length (batch st1)\<rparr>
        else
          let st2 = st1\<lparr>recordsInserted := recordsInserted st1 + length (batch st1)\<rparr>;
              st3 = emit (UpdateJobProgress jobId (current_progress st2) (progressOk io)) st2 in
          if \<not> progressOk io
          then st3\<lparr>errorCount := errorCount st3 + length (batch st3)\<rparr>
          else st3
      else st)"

text \<open>The lines the splitter delivers, one \<open>transform\<close> call each.\<close>

fun run_lines ::
  "config \<Rightarrow> json_parse \<Rightarrow> parser \<Rightarrow> objectId \<Rightarrow> objectId \<Rightarrow> worker \<Rightarrow> (string \<times> line_io) list
     \<Rightarrow> worker option" where
  "run_lines cfg jp parseLineFn fid jobId st [] = Some st"
| "run_lines cfg jp parseLineFn fid jobId st (input # rest) =
     (case transform cfg jp parseLineFn fid jobId st input of
        None \<Rightarrow> None
      | Some st' \<Rightarrow> run_lines cfg jp parseLineFn fid jobId st' rest)"

definition processStream ::
  "config \<Rightarrow> json_parse \<Rightarrow> parser \<Rightarrow> objectId \<Rightarrow> objectId \<Rightarrow> (string \<times> line_io) list \<Rightarrow> line_io
     \<Rightarrow> worker option" where
  "processStream cfg jp parseLineFn fid jobId inputs flush_io =
     map_option (flush jobId flush_io)
       (run_lines cfg jp parseLineFn fid jobId init_worker inputs)"

text \<open>
  What the environment of one \<open>processJob\<close> call answers: the file lookup, whether
  the download starts, the lines delivered, whether the source stream then fails instead
  of ending, the outcomes of \<open>completeJob\<close> and \<open>updateFileStatus\<close>, and the message
  of the error a failing call throws.
\<close>

record job_env =
  env_file :: "file_record option"
  env_downloadOk :: bool
  env_inputs :: "(string \<times> line_io) list"
  env_streamFails :: bool
  env_flush :: line_io
  env_completeOk :: bool
  env_statusOk :: bool
  env_thrown :: string

definition result_of :: "worker \<Rightarrow> job_result" where
  "result_of st = ResultStats (linesProcessed st) (recordsInserted st) (errorCount st) True"

text \<open>
  \<open>processJob\<close>: the calls it makes, or \<open>None\<close> when a \<open>transform\<close> call never
  calls back. Every throw inside the \<open>try\<close> ends in \<open>failJob\<close>.
\<close>

definition processJob :: "config \<Rightarrow> json_parse \<Rightarrow> job \<Rightarrow> job_env \<Rightarrow> effect list option" where
  "processJob cfg jp j env =
     (let jobId = job_id j in
      case env_file env of
        None \<Rightarrow> Some [FailJob jobId (FileNotFound (fileId j))]
      | Some file \<Rightarrow>
          if \<not> env_downloadOk env then Some [FailJob jobId (Thrown (env_thrown env))]
          else
            let parseLineFn = getParser (contentType file) in
            (case run_lines cfg jp parseLineFn (file_id file) jobId init_worker (env_inputs env) of
               None \<Rightarrow> None
             | Some st0 \<Rightarrow>
                 if env_streamFails env
                 then Some (effects st0 @ [FailJob jobId (Thrown (env_thrown env))])
                 else
                   let st = flush jobId (env_flush env) st0;
                       done = effects st @ [CompleteJob jobId (result_of st) (env_completeOk env)] in
                   if \<not> env_completeOk env
                   then Some (done @ [FailJob jobId (Thrown (env_thrown env))])
                   else
                     let done2 = done @ [UpdateFileStatus (fileId j) ''processed'' (env_statusOk env)] in
                     if \<not> env_statusOk env
                     then Some (done2 @ [FailJob jobId (Thrown (env_thrown env))])
                     else Some done2))"

section \<open>Identifiers at the HTTP boundary\<close>

text \<open>
  The driver's \<open>new ObjectId(s)\<close> on a string of 24 characters: the number the
  string denotes when all characters are hexadecimal digits, a thrown error otherwise
  (\<open>None\<close>). The routes below call it on strings of that length only.
\<close>

definition hex_digits :: string where
  "hex_digits = ''0123456789abcdef''"

definition hex_value :: "char \<Rightarrow> nat option" where
  "hex_value c = index_of (lower_char c) hex_digits 0"

fun hex_number :: "nat \<Rightarrow> string \<Rightarrow> nat option" where
  "hex_number acc [] = Some acc"
| "hex_number acc (c # cs) =
     (case hex_value c of
        None \<Rightarrow> None
      | Some d \<Rightarrow> hex_number (16 * acc + d) cs)"

definition ObjectId :: "string \<Rightarrow> objectId option" where
  "ObjectId s = (if length s = 24 then hex_number 0 s else None)"

text \<open>The message of the error the constructor throws.\<close>

definition ObjectId_error :: string where
  "ObjectId_error = ''input must be a 24 character hex string, 12 byte Uint8Array, or an integer''"

text \<open>\<open>id.toString()\<close>: 24 lower-case hexadecimal digits.\<close>

fun hex_of :: "nat \<Rightarrow> nat \<Rightarrow> string" where
  "hex_of 0 n = []"
| "hex_of (Suc k) n = hex_of k (n div 16) @ [hex_digits ! (n mod 16)]"

definition toHexString :: "objectId \<Rightarrow> string" where
  "toHexString n = hex_of 24 n"

section \<open>Process and job-status routes (routes/process.js)\<close>

datatype body =
    ErrorBody string
  | ErrorIdBody string string
  | ErrorMessageBody string string
  | JobCreatedBody string string job_state date string
  | JobStatusBody string string job_state int date "date option" "date option"
      job_progress nat "job_result option"
  | UploadedBody string string string string nat string date

datatype response = Response nat body

fun status_code :: "response \<Rightarrow> nat" where
  "status_code (Response code b) = code"

text \<open>
  \<open>POST /process/:fileId\<close>. The handler's \<open>try\<close> covers everything, so the throw
  of \<open>new ObjectId(fileId)\<close> inside \<open>getFileById\<close> and a refused insert end in the
  500 answer. The result is the response and the jobs collection.
\<close>

definition post_process ::
  "file_record list \<Rightarrow> objectId \<Rightarrow> date \<Rightarrow> string \<Rightarrow> job list \<Rightarrow> response \<times> job list" where
  "post_process files new_id now fileId_param db =
     (if fileId_param = [] \<or> length fileId_param \<noteq> 24
      then (Response 400 (ErrorBody ''Invalid fileId format''), db)
      else
        (case ObjectId fileId_param of
           None \<Rightarrow> (Response 500 (ErrorMessageBody ''Failed to create processing job'' ObjectId_error), db)
         | Some fid \<Rightarrow>
             (case getFileById fid files of
                None \<Rightarrow> (Response 404 (ErrorIdBody ''File not found'' fileId_param), db)
              | Some file \<Rightarrow>
                  (case createJob new_id fid now db of
                     Inl e \<Rightarrow>
                       (Response 500 (ErrorMessageBody ''Failed to create processing job''
                                        duplicate_key_message), db)
                   | Inr (db', j) \<Rightarrow>
                       (Response 201
                          (JobCreatedBody (toHexString (job_id j)) fileId_param (state j) (queuedAt j)
                             ''Job created and queued for processing''), db')))))"

text \<open>\<open>GET /jobs/:jobId\<close>.\<close>

definition get_job :: "string \<Rightarrow> job list \<Rightarrow> response" where
  "get_job jobId_param db =
     (if jobId_param = [] \<or> length jobId_param \<noteq> 24
      then Response 400 (ErrorBody ''Invalid jobId format'')
      else
        (case ObjectId jobId_param of
           None \<Rightarrow> Response 500 (ErrorMessageBody ''Failed to retrieve job'' ObjectId_error)
         | Some jid \<Rightarrow>
             (case getJobById jid db of
                None \<Rightarrow> Response 404 (ErrorIdBody ''Job not found'' jobId_param)
              | Some j \<Rightarrow>
                  Response 200
                    (JobStatusBody (toHexString (job_id j)) (toHexString (fileId j)) (state j)
                       (attempts j) (queuedAt j) (startedAt j) (finishedAt j) (progress j)
                       (length (errors j)) (result j)))))"

text \<open>The identifier format of the interface: exactly 24 hexadecimal characters.\<close>

definition is_hex_char :: "char \<Rightarrow> bool" where
  "is_hex_char c = (hex_value c \<noteq> None)"

definition well_formed_id :: "string \<Rightarrow> bool" where
  "well_formed_id s = (length s = 24 \<and> list_all is_hex_char s)"

section \<open>Upload route\<close>

text \<open>
  The handler of \<open>POST /upload\<close> registers callbacks on the multipart parser and
  returns; what the client receives is decided by the callbacks. The model runs the
  callbacks over the sequence of events that occur: a file part starts (with the key
  \<open>generateS3Key\<close> made for it), the parser's \<open>limit\<close>, \<open>close\<close> and
  \<open>error\<close> events, an error of the file stream, and the settling of
  \<open>uploadStreamToS3\<close> (with the byte count seen so far and, for \<open>createFile\<close>, the
  fresh identifier and the clock).
\<close>

datatype promise = Pending | Resolved | Rejected string

datatype put_outcome = PutDone nat objectId date | PutFailed string

datatype upload_event =
    FileEvent string string string
  | LimitEvent
  | FileStreamError string
  | PutSettled put_outcome
  | CloseEvent
  | BusboyError string

text \<open>
  The handler's variables; \<open>sent\<close> is the response written to the client
  (\<open>res.headersSent\<close> holds when there is one), \<open>uploading\<close> the file part whose
  \<open>uploadStreamToS3\<close> call is in flight, \<open>closeWaiting\<close> whether the \<open>close\<close>
  callback is suspended at \<open>await fileProcessing\<close>, and \<open>catalog\<close> the \<open>files\<close>
  collection.
\<close>

record upload =
  fileProcessing :: "promise option"
  uploadError :: "string option"
  fileMetadata :: "file_record option"
  fileReceived :: bool
  responseSent :: bool
  sent :: "response option"
  uploading :: "(string \<times> string \<times> string) option"
  closeWaiting :: bool
  catalog :: "file_record list"

definition init_upload :: "file_record list \<Rightarrow> upload" where
  "init_upload files =
     \<lparr>fileProcessing = None, uploadError = None, fileMetadata = None, fileReceived = False,
      responseSent = False, sent = None, uploading = None, closeWaiting = False,
      catalog = files\<rparr>"

text \<open>
  \<open>res.status(c).json(b)\<close>. Once a response has been written a second one throws; at
  every place where that can happen the throw is caught by a \<open>catch\<close> whose guard
  \<open>!res.headersSent\<close> is false, so nothing further is sent.
\<close>

definition send :: "response \<Rightarrow> upload \<Rightarrow> upload" where
  "send r st = (if sent st = None then st\<lparr>sent := Some r\<rparr> else st)"

definition uploaded_response :: "file_record \<Rightarrow> response" where
  "uploaded_response f =
     Response 200
       (UploadedBody (toHexString (file_id f)) (s3Key f) ''uploaded'' (originalName f)
          (file_size f) (case contentType f of None \<Rightarrow> [] | Some m \<Rightarrow> m) (uploadedAt f))"

text \<open>The \<open>close\<close> callback after \<open>await fileProcessing\<close> has returned.\<close>

definition close_resume :: "upload \<Rightarrow> upload" where
  "close_resume st =
     (case uploadError st of
        Some message \<Rightarrow>
          send (Response 500 (ErrorMessageBody ''Upload failed'' message)) (st\<lparr>responseSent := True\<rparr>)
      | None \<Rightarrow>
          if \<not> fileReceived st
          then send (Response 400
                       (ErrorBody (''No file uploaded. Please include a file in the '' @ [CHR 0x22]
                                   @ ''file'' @ [CHR 0x22] @ '' field.'')))
                 (st\<lparr>responseSent := True\<rparr>)
          else
            (case fileMetadata st of
               None \<Rightarrow>
                 send (Response 500
                         (ErrorMessageBody ''Upload processing incomplete''
                            ''File was received but processing did not complete. Check server logs.''))
                   (st\<lparr>responseSent := True\<rparr>)
             | Some f \<Rightarrow> send (uploaded_response f) (st\<lparr>responseSent := True\<rparr>)))"

text \<open>The \<open>catch\<close> of the \<open>close\<close> callback, entered when the awaited promise rejects.\<close>

definition close_catch :: "string \<Rightarrow> upload \<Rightarrow> upload" where
  "close_catch message st =
     (if sent st = None \<and> \<not> responseSent st
      then send (Response 500 (ErrorMessageBody ''Upload processing failed'' message))
             (st\<lparr>responseSent := True\<rparr>)
      else st)"

text \<open>
  \<open>resolve()\<close> and \<open>reject(error)\<close>: a promise settles once; a \<open>close\<close> callback
  waiting on it then continues. A rejection that nobody awaits yet is kept until the
  \<open>close\<close> callback awaits it.
\<close>

definition settle :: "promise \<Rightarrow> upload \<Rightarrow> upload" where
  "settle p st =
     (if fileProcessing st = Some Pending
      then
        let st1 = st\<lparr>fileProcessing := Some p\<rparr> in
        if closeWaiting st1
        then (case p of
                Rejected message \<Rightarrow> close_catch message (st1\<lparr>closeWaiting := False\<rparr>)
              | _ \<Rightarrow> close_resume (st1\<lparr>closeWaiting := False\<rparr>))
        else st1
      else st)"

definition on_file :: "config \<Rightarrow> string \<Rightarrow> string \<Rightarrow> string \<Rightarrow> upload \<Rightarrow> upload" where
  "on_file cfg filename mimeType key st =
     (let st1 = st\<lparr>fileReceived := True\<rparr> in
      if mimeType \<notin> set (allowedFileTypes cfg)
      then st1\<lparr>uploadError := Some (''File type '' @ mimeType @ '' is not allowed. Allowed types: ''
                                      @ join_comma (allowedFileTypes cfg)),
               fileProcessing := Some Resolved\<rparr>
      else st1\<lparr>fileProcessing := Some Pending, uploading := Some (filename, mimeType, key)\<rparr>)"

definition on_limit :: "config \<Rightarrow> upload \<Rightarrow> upload" where
  "on_limit cfg st =
     st\<lparr>uploadError := Some (''File size exceeds maximum allowed size of ''
                             @ show_int (maxFileSize cfg) @ '' bytes'')\<rparr>"

text \<open>
  The rest of the upload after \<open>await uploadStreamToS3(...)\<close>: on success the record
  is created and the response is sent at once; a throw (of the put or of
  \<open>createFile\<close>) is recorded in \<open>uploadError\<close> and rejects the promise.
\<close>

definition on_put_settled :: "put_outcome \<Rightarrow> upload \<Rightarrow> upload" where
  "on_put_settled outcome st =
     (case uploading st of
        None \<Rightarrow> st
      | Some (filename, mimeType, key) \<Rightarrow>
          (let st1 = st\<lparr>uploading := None\<rparr> in
           case outcome of
             PutFailed message \<Rightarrow> settle (Rejected message) (st1\<lparr>uploadError := Some message\<rparr>)
           | PutDone uploadedSize new_id now \<Rightarrow>
               (case createFile new_id now key filename uploadedSize mimeType (catalog st1) of
                  Inl e \<Rightarrow>
                    settle (Rejected duplicate_key_message)
                      (st1\<lparr>uploadError := Some duplicate_key_message\<rparr>)
                | Inr (files', fileDoc) \<Rightarrow>
                    (let st2 = st1\<lparr>catalog := files', fileMetadata := Some fileDoc\<rparr>;
                         st3 = (if sent st2 = None \<and> \<not> responseSent st2
                                then send (uploaded_response fileDoc) (st2\<lparr>responseSent := True\<rparr>)
                                else st2)
                     in settle Resolved st3))))"

definition on_close :: "upload \<Rightarrow> upload" where
  "on_close st =
     (if responseSent st \<or> sent st \<noteq> None then st
      else
        (case fileProcessing st of
           None \<Rightarrow> close_resume st
         | Some Pending \<Rightarrow> st\<lparr>closeWaiting := True\<rparr>
         | Some Resolved \<Rightarrow> close_resume st
         | Some (Rejected message) \<Rightarrow> close_catch message st))"

definition on_busboy_error :: "string \<Rightarrow> upload \<Rightarrow> upload" where
  "on_busboy_error message st =
     (if sent st = None \<and> \<not> responseSent st
      then send (Response 500 (ErrorMessageBody ''Upload processing failed'' message))
             (st\<lparr>responseSent := True\<rparr>)
      else st)"

fun upload_step :: "config \<Rightarrow> upload_event \<Rightarrow> upload \<Rightarrow> upload" where
  "upload_step cfg (FileEvent filename mimeType key) st = on_file cfg filename mimeType key st"
| "upload_step cfg LimitEvent st = on_limit cfg st"
| "upload_step cfg (FileStreamError message) st =
     settle (Rejected message) (st\<lparr>uploadError := Some message\<rparr>)"
| "upload_step cfg (PutSettled outcome) st = on_put_settled outcome st"
| "upload_step cfg CloseEvent st = on_close st"
| "upload_step cfg (BusboyError message) st = on_busboy_error message st"

fun run_events :: "config \<Rightarrow> upload_event list \<Rightarrow> upload \<Rightarrow> upload" where
  "run_events cfg [] st = st"
| "run_events cfg (e # es) st = run_events cfg es (upload_step cfg e st)"

text \<open>The route: the outer content-type test, then the callbacks.\<close>

definition post_upload ::
  "config \<Rightarrow> string option \<Rightarrow> upload_event list \<Rightarrow> file_record list \<Rightarrow> upload" where
  "post_upload cfg content_type events files =
     (case content_type of
        None \<Rightarrow> send (Response 400 (ErrorBody ''Content-Type must be multipart/form-data''))
                  (init_upload files)
      | Some ct \<Rightarrow>
          if \<not> includes_str ct ''multipart/form-data''
          then send (Response 400 (ErrorBody ''Content-Type must be multipart/form-data''))
                 (init_upload files)
          else run_events cfg events (init_upload files))"

section \<open>Notions used to state the properties\<close>

text \<open>
  What \<open>transform\<close> makes of a line: skipped, counted as a parse error, counted as
  invalid data, or added to the batch. The line number does not influence it.
\<close>

datatype line_kind = EmptyLine | ParseError | InvalidData | ValidData

fun kind_of :: "parsed option \<Rightarrow> line_kind" where
  "kind_of None = EmptyLine"
| "kind_of (Some (Failure n e raw)) = ParseError"
| "kind_of (Some (Success n d)) = (if validateParsedData d then ValidData else InvalidData)"

definition line_kind :: "json_parse \<Rightarrow> parser \<Rightarrow> string \<Rightarrow> line_kind" where
  "line_kind jp p line = kind_of (run_parser jp p line 0)"

definition count_kind :: "line_kind \<Rightarrow> json_parse \<Rightarrow> parser \<Rightarrow> (string \<times> line_io) list \<Rightarrow> nat" where
  "count_kind k jp p inputs = length (filter (\<lambda>x. line_kind jp p (fst x) = k) inputs)"

definition rejected :: "line_kind \<Rightarrow> bool" where
  "rejected k = (k = ParseError \<or> k = InvalidData)"

definition rejected_lines :: "json_parse \<Rightarrow> parser \<Rightarrow> (string \<times> line_io) list \<Rightarrow> nat" where
  "rejected_lines jp p inputs = count_kind ParseError jp p inputs + count_kind InvalidData jp p inputs"

text \<open>The number of input lines whose trimmed content is empty.\<close>

definition empty_lines :: "(string \<times> line_io) list \<Rightarrow> nat" where
  "empty_lines inputs = length (filter (\<lambda>x. trim (fst x) = []) inputs)"

text \<open>The sizes of the bulk inserts among the calls made, in order.\<close>

fun bulk_sizes :: "effect list \<Rightarrow> nat list" where
  "bulk_sizes [] = []"
| "bulk_sizes (e # es) = (case e of InsertMany rs ok \<Rightarrow> [length rs] | _ \<Rightarrow> []) @ bulk_sizes es"

text \<open>The calls that the stream pipeline makes, as opposed to those that end the job.\<close>

fun stream_effect :: "effect \<Rightarrow> bool" where
  "stream_effect (AddJobError k m ok) = True"
| "stream_effect (InsertMany rs ok) = True"
| "stream_effect (UpdateJobProgress k pr ok) = True"
| "stream_effect (Sleep ms) = True"
| "stream_effect (CompleteJob k r ok) = False"
| "stream_effect (UpdateFileStatus k s ok) = False"
| "stream_effect (FailJob k f) = False"

text \<open>
  The write to the job record that one line may need succeeds (\<open>writes_ok\<close>), and the
  weaker condition under which \<open>transform\<close> calls back at all: the error of a rejected
  line is logged at the first attempt or in the outer \<open>catch\<close>.
\<close>

definition writes_ok :: "line_io \<Rightarrow> bool" where
  "writes_ok io = (addErrorOk io \<and> progressOk io)"

definition error_logged :: "json_parse \<Rightarrow> parser \<Rightarrow> string \<times> line_io \<Rightarrow> bool" where
  "error_logged jp p x =
     (rejected (line_kind jp p (fst x)) \<longrightarrow> addErrorOk (snd x) \<or> addErrorRetryOk (snd x))"

text \<open>
  The order the specification gives for the end of a job: the first file-status update
  comes before the first \<open>completeJob\<close> call.
\<close>

fun first_index :: "('a \<Rightarrow> bool) \<Rightarrow> 'a list \<Rightarrow> nat option" where
  "first_index P [] = None"
| "first_index P (x # xs) = (if P x then Some 0 else map_option Suc (first_index P xs))"

fun is_status_update :: "effect \<Rightarrow> bool" where
  "is_status_update (UpdateFileStatus k s ok) = True"
| "is_status_update e = False"

fun is_complete :: "effect \<Rightarrow> bool" where
  "is_complete (CompleteJob k r ok) = True"
| "is_complete e = False"

definition status_before_complete :: "effect list \<Rightarrow> bool" where
  "status_before_complete es =
     (case (first_index is_status_update es, first_index is_complete es) of
        (Some a, Some b) \<Rightarrow> a < b
      | _ \<Rightarrow> False)"

text \<open>
  The bound the specification states for the counters of a completed job, given the
  number of empty lines.
\<close>

fun counters_within_spec_bound :: "job_result \<Rightarrow> nat \<Rightarrow> bool" where
  "counters_within_spec_bound (ResultStats lp ri ec ok) el = (ri \<le> lp \<and> ri + ec \<le> lp + el)"
| "counters_within_spec_bound (ResultError message stack) el = True"

text \<open>
  An operation keeps the job \<open>jobId\<close> in its terminal state: the document keeps its
  identifier and, if it is that job and completed or failed, its state.
\<close>

definition keeps :: "objectId \<Rightarrow> job \<Rightarrow> job \<Rightarrow> bool" where
  "keeps jobId j j' =
     (job_id j' = job_id j \<and> (job_id j = jobId \<and> terminal (state j) \<longrightarrow> state j' = state j))"

section \<open>Example inputs\<close>

text \<open>An environment in which every write succeeds, and a worker about to read line 7.\<close>

definition io_all_ok :: line_io where
  "io_all_ok =
     \<lparr>clock = 1000, addErrorOk = True, addErrorRetryOk = True, insertOk = True,
      progressOk = True, thrownMessage = []\<rparr>"

definition worker_at_line_7 :: worker where
  "worker_at_line_7 = init_worker\<lparr>lineNumber := 7\<rparr>"

text \<open>Two jobs created in the same millisecond, the later one with the smaller identifier.\<close>

definition tie_db :: "job list" where
  "tie_db = run_ops default_config [Create 2 7 5, Create 1 7 5] []"

text \<open>A job claimed three times, its lock expiring each time.\<close>

definition stale_db :: "job list" where
  "stale_db =
     run_ops default_config
       [Create 1 7 0,
        Claim ''w1'' 1000 1000, RecoverStale 400000 400000 400000 400000,
        Claim ''w1'' 401000 401000, RecoverStale 800000 800000 800000 800000,
        Claim ''w1'' 801000 801000] []"

text \<open>A job claimed once, and operations that do not complete or fail job 1.\<close>

definition claimed_db :: "job list" where
  "claimed_db = run_ops default_config [Create 1 7 0, Claim ''w1'' 1000 1000] []"

definition other_ops :: "queue_op list" where
  "other_ops =
     [Create 2 7 3000, Claim ''w2'' 4000 4000,
      UpdateProgress 1 \<lparr>p_linesProcessed = 9, p_recordsInserted = 9, p_errors = 0\<rparr> 5000,
      AppendError 1 ''Line 4: late'' 6000, Complete 2 (ResultStats 0 0 0 True) 7000,
      RecoverStale 900000 900000 900000 900000]"

text \<open>A job created, claimed and completed.\<close>

definition done_db :: "job list" where
  "done_db =
     run_ops default_config
       [Create 1 7 0, Claim ''w1'' 1000 1000, Complete 1 (ResultStats 3 3 0 True) 2000] []"

text \<open>A claimed job, its file, and two runs of it: one malformed line, one good line.\<close>

definition claimed_job :: job where
  "claimed_job =
     \<lparr>job_id = 1, fileId = 7, state = InProgress, attempts = 1, queuedAt = 0,
      startedAt = Some 1000, finishedAt = None, workerId = Some ''w1'',
      lockUntil = Some 301000,
      progress = \<lparr>p_linesProcessed = 0, p_recordsInserted = 0, p_errors = 0\<rparr>,
      errors = [], result = None\<rparr>"

definition json_file :: file_record where
  "json_file =
     \<lparr>file_id = 7, s3Key = ''uploads/2024-01-01/1-abc123-data.json'', originalName = ''data.json'',
      file_size = 9, contentType = Some ''application/json'', uploadedAt = 0,
      status = ''uploaded''\<rparr>"

text \<open>
  The line \<open>{"id":1}\<close>, and a stand-in for \<open>JSON.parse\<close> that decodes this
  line and rejects every other text.
\<close>

definition good_line :: string where
  "good_line = ''{'' @ [CHR 0x22] @ ''id'' @ [CHR 0x22] @ '':1}''"

definition JSON_parse_stub :: json_parse where
  "JSON_parse_stub s =
     (if s = good_line then Inr (JObj [(''id'', JNum 1)]) else Inl ''Unexpected token'')"

definition env_of_lines :: "string list \<Rightarrow> job_env" where
  "env_of_lines ls =
     \<lparr>env_file = Some json_file, env_downloadOk = True,
      env_inputs = map (\<lambda>l. (l, io_all_ok)) ls, env_streamFails = False,
      env_flush = io_all_ok, env_completeOk = True, env_statusOk = True, env_thrown = []\<rparr>"

definition mixed_lines :: "string list" where
  "mixed_lines = [good_line, ''not json'', ''   '', good_line]"

text \<open>
  An upload of an allowed type during which the parser signals its size limit and the
  truncated object is stored: once with the parser closing before the put settles, once
  after.
\<close>

definition oversize_close_first :: "upload_event list" where
  "oversize_close_first =
     [FileEvent ''big.txt'' ''text/plain'' ''uploads/2024-01-01/1-abc123-big.txt'', LimitEvent,
      CloseEvent, PutSettled (PutDone 5368709120 9 2000)]"

definition oversize_put_first :: "upload_event list" where
  "oversize_put_first =
     [FileEvent ''big.txt'' ''text/plain'' ''uploads/2024-01-01/1-abc123-big.txt'', LimitEvent,
      PutSettled (PutDone 5368709120 9 2000), CloseEvent]"

definition multipart_header :: "string option" where
  "multipart_header = Some ''multipart/form-data; boundary=x''"

text \<open>A text file of three lines read with a batch size of two.\<close>

definition batch_of_two :: config where
  "batch_of_two = default_config\<lparr>jobBatchSize := 2\<rparr>"

definition three_lines :: "(string \<times> line_io) list" where
  "three_lines = [(''a'', io_all_ok), (''b'', io_all_ok), (''c'', io_all_ok)]"

section \<open>Properties of the line parser\<close>

lemma split_comma_nonempty: "split_comma s \<noteq> []"
  by (induction s) (auto split: list.splits)

lemma parseCsvLine_success:
  "trim line \<noteq> [] \<Longrightarrow>
     parseCsvLine line n None = Some (Success n (JArr (map JStr (map trim (split_comma (trim line))))))"
  by (simp add: parseCsvLine_def Let_def)

lemma parseTextLine_success:
  "trim line \<noteq> [] \<Longrightarrow> parseTextLine line n = Some (Success n (JObj [(''text'', JStr line)]))"
  by (simp add: parseTextLine_def Let_def)

lemma parseLineAuto_success:
  "trim line \<noteq> [] \<Longrightarrow> \<exists>d. parseLineAuto jp line n = Some (Success n d)"
  by (auto simp: parseLineAuto_def parseJsonLine_def parseCsvLine_def parseTextLine_def Let_def
           split: sum.splits)

lemma parseLineAuto_None: "parseLineAuto jp line n = None \<longleftrightarrow> trim line = []"
proof (cases "trim line = []")
  case True
  then show ?thesis by (simp add: parseLineAuto_def)
next
  case False
  with parseLineAuto_success[of line jp n] show ?thesis by auto
qed

text \<open>
  Claim C9. On a line whose trimmed content is not empty, \<open>parseCsvLine\<close> without
  headers, \<open>parseTextLine\<close> and \<open>parseLineAuto\<close> return a success object;
  \<open>parseLineAuto\<close> returns \<open>null\<close> exactly when the trimmed line is empty; and a
  worker whose parser is the CSV, text or auto-detecting one never receives a failure
  object, so it never takes the parse-error branch.
\<close>

theorem parsers_never_fail:
  "(trim line \<noteq> [] \<longrightarrow>
      (\<exists>d. parseCsvLine line n None = Some (Success n d)) \<and>
      (\<exists>d. parseTextLine line n = Some (Success n d)) \<and>
      (\<exists>d. parseLineAuto jp line n = Some (Success n d)))
   \<and> (parseLineAuto jp line n = None \<longleftrightarrow> trim line = [])
   \<and> (\<forall>p \<in> {CsvParser, TextParser, AutoParser}. \<forall>m e raw.
         run_parser jp p line n \<noteq> Some (Failure m e raw))"
proof -
  have a: "trim line \<noteq> [] \<longrightarrow>
      (\<exists>d. parseCsvLine line n None = Some (Success n d)) \<and>
      (\<exists>d. parseTextLine line n = Some (Success n d)) \<and>
      (\<exists>d. parseLineAuto jp line n = Some (Success n d))"
    using parseCsvLine_success parseTextLine_success parseLineAuto_success by blast
  have b: "parseLineAuto jp line n = None \<longleftrightarrow> trim line = []"
    by (rule parseLineAuto_None)
  have c: "\<forall>p \<in> {CsvParser, TextParser, AutoParser}. \<forall>m e raw.
         run_parser jp p line n \<noteq> Some (Failure m e raw)"
  proof (cases "trim line = []")
    case True
    then show ?thesis
      by (auto simp: parseCsvLine_def parseTextLine_def parseLineAuto_def)
  next
    case False
    with a show ?thesis by auto
  qed
  from a b c show ?thesis by blast
qed

theorem parsers_never_fail_witness:
  "trim ''{a, b'' \<noteq> [] \<and>
   parseCsvLine ''{a, b'' 4 None = Some (Success 4 (JArr [JStr ''{a'', JStr ''b''])) \<and>
   parseTextLine ''{a, b'' 4 = Some (Success 4 (JObj [(''text'', JStr ''{a, b'')])) \<and>
   parseLineAuto (\<lambda>s. Inl ''Unexpected token'') ''{a, b'' 4 =
     Some (Success 4 (JArr [JStr ''{a'', JStr ''b''])) \<and>
   run_parser (\<lambda>s. Inl ''Unexpected token'') AutoParser ''{a, b'' 4 \<noteq>
     Some (Failure 4 ''Unexpected token'' ''{a, b'')"
  using parsers_never_fail [of "''{a, b''" 4 "\<lambda>s. Inl ''Unexpected token''"]
  by (simp add: parseCsvLine_def parseTextLine_def parseLineAuto_def parseJsonLine_def
        trim_def is_ws_def Let_def)

lemma validateParsedData_iff:
  "validateParsedData d \<longleftrightarrow> (\<exists>kvs. d = JObj kvs \<and> kvs \<noteq> []) \<or> (\<exists>xs. d = JArr xs \<and> xs \<noteq> [])"
  by (cases d) (auto simp: validateParsedData_def)

lemma invalid_json_line:
  assumes "trim line \<noteq> []" and "jp (trim line) = Inr d" and "\<not> validateParsedData d"
  shows "transform_body cfg jp JsonParser fid jobId line io st =
           (if addErrorOk io then Inr else Inl)
             (emit (AddJobError jobId (''Line '' @ show_nat (lineNumber st) @ '': Invalid data format'')
                      (addErrorOk io))
                (st\<lparr>errorCount := errorCount st + 1\<rparr>))"
  using assms
  by (simp add: transform_body_def parseJsonLine_def count_line_error_def Let_def)

text \<open>
  Claim C10. \<open>validateParsedData\<close> accepts exactly the objects and arrays that have
  at least one key. So when the JSON parser decodes a line to a value that is neither a
  non-empty object nor a non-empty array (a number, string, boolean, \<open>null\<close>, \<open>{}\<close>
  or \<open>[]\<close>), the worker adds one to its error count and logs
  \<open>Line n: Invalid data format\<close>, leaving the batch as it was; and the array that
  header-less CSV parsing produces is always accepted.
\<close>

theorem validateParsedData_objects_only:
  "(validateParsedData d \<longleftrightarrow>
      (\<exists>kvs. d = JObj kvs \<and> kvs \<noteq> []) \<or> (\<exists>xs. d = JArr xs \<and> xs \<noteq> []))
   \<and> (trim line \<noteq> [] \<and> jp (trim line) = Inr d \<and>
        (\<forall>kv kvs. d \<noteq> JObj (kv # kvs)) \<and> (\<forall>x xs. d \<noteq> JArr (x # xs)) \<longrightarrow>
        transform_body cfg jp JsonParser fid jobId line io st =
          (if addErrorOk io then Inr else Inl)
            (emit (AddJobError jobId (''Line '' @ show_nat (lineNumber st) @ '': Invalid data format'')
                     (addErrorOk io))
               (st\<lparr>errorCount := errorCount st + 1\<rparr>)))
   \<and> (trim line \<noteq> [] \<longrightarrow>
        (\<exists>x xs. parseCsvLine line n None = Some (Success n (JArr (x # xs))) \<and>
                validateParsedData (JArr (x # xs))))"
proof -
  have a: "validateParsedData d \<longleftrightarrow>
      (\<exists>kvs. d = JObj kvs \<and> kvs \<noteq> []) \<or> (\<exists>xs. d = JArr xs \<and> xs \<noteq> [])"
    by (rule validateParsedData_iff)
  have b: "trim line \<noteq> [] \<and> jp (trim line) = Inr d \<and>
        (\<forall>kv kvs. d \<noteq> JObj (kv # kvs)) \<and> (\<forall>x xs. d \<noteq> JArr (x # xs)) \<longrightarrow>
        transform_body cfg jp JsonParser fid jobId line io st =
          (if addErrorOk io then Inr else Inl)
            (emit (AddJobError jobId (''Line '' @ show_nat (lineNumber st) @ '': Invalid data format'')
                     (addErrorOk io))
               (st\<lparr>errorCount := errorCount st + 1\<rparr>))"
  proof (intro impI, elim conjE)
    assume t: "trim line \<noteq> []" and p: "jp (trim line) = Inr d"
      and o: "\<forall>kv kvs. d \<noteq> JObj (kv # kvs)" and ar: "\<forall>x xs. d \<noteq> JArr (x # xs)"
    have "\<not> validateParsedData d"
      unfolding validateParsedData_iff using o ar by (auto simp: neq_Nil_conv)
    with t p show "transform_body cfg jp JsonParser fid jobId line io st =
          (if addErrorOk io then Inr else Inl)
            (emit (AddJobError jobId (''Line '' @ show_nat (lineNumber st) @ '': Invalid data format'')
                     (addErrorOk io))
               (st\<lparr>errorCount := errorCount st + 1\<rparr>))"
      by (rule invalid_json_line)
  qed
  have c: "trim line \<noteq> [] \<longrightarrow>
        (\<exists>x xs. parseCsvLine line n None = Some (Success n (JArr (x # xs))) \<and>
                validateParsedData (JArr (x # xs)))"
  proof
    assume t: "trim line \<noteq> []"
    obtain v vs where vs: "split_comma (trim line) = v # vs"
      using split_comma_nonempty[of "trim line"] by (cases "split_comma (trim line)") auto
    have "parseCsvLine line n None = Some (Success n (JArr (JStr (trim v) # map JStr (map trim vs))))"
      using t vs by (simp add: parseCsvLine_def Let_def)
    moreover have "validateParsedData (JArr (JStr (trim v) # map JStr (map trim vs)))"
      by (simp add: validateParsedData_iff)
    ultimately show "\<exists>x xs. parseCsvLine line n None = Some (Success n (JArr (x # xs))) \<and>
                validateParsedData (JArr (x # xs))" by blast
  qed
  from a b c show ?thesis by blast
qed

theorem validateParsedData_objects_only_witness:
  "\<not> validateParsedData (JNum 5) \<and> trim '' 5'' \<noteq> [] \<and>
   transform_body default_config (\<lambda>s. Inr (JNum 5)) JsonParser 3 4 '' 5'' io_all_ok worker_at_line_7 =
     Inr (worker_at_line_7\<lparr>errorCount := 1,
              effects := [AddJobError 4 ''Line 7: Invalid data format'' True]\<rparr>) \<and>
   parseCsvLine ''a,b'' 7 None = Some (Success 7 (JArr [JStr ''a'', JStr ''b''])) \<and>
   validateParsedData (JArr [JStr ''a'', JStr ''b''])"
  using validateParsedData_objects_only
          [of "JNum 5" "'' 5''" "\<lambda>s. Inr (JNum 5)" default_config 3 4 io_all_ok worker_at_line_7 7]
        validateParsedData_objects_only
          [of "JArr [JStr ''a'', JStr ''b'']" "''a,b''" "\<lambda>s. Inr (JNum 5)" default_config 3 4
              io_all_ok worker_at_line_7 7]
  by (simp add: worker_at_line_7_def io_all_ok_def init_worker_def emit_def trim_def is_ws_def
        show_nat.simps digit_char_def parseCsvLine_def Let_def)

section \<open>Properties of the job queue\<close>

lemma oldest_queued_None: "oldest_queued db = None \<longleftrightarrow> (\<forall>j\<in>set db. state j \<noteq> Queued)"
  by (induction db) (auto split: option.splits if_splits)

lemma oldest_queued_Some:
  "oldest_queued db = Some i \<Longrightarrow>
     i < length db \<and> state (db ! i) = Queued \<and>
     (\<forall>k<length db. state (db ! k) = Queued \<longrightarrow> queuedAt (db ! i) \<le> queuedAt (db ! k))"
proof (induction db arbitrary: i)
  case Nil
  then show ?case by simp
next
  case (Cons j js)
  show ?case
  proof (cases "oldest_queued js")
    case None
    then have nq: "\<forall>x\<in>set js. state x \<noteq> Queued" by (simp add: oldest_queued_None)
    from Cons.prems None have i0: "i = 0" and qj: "state j = Queued"
      by (auto split: if_splits)
    have "\<forall>k<length (j # js). state ((j # js) ! k) = Queued \<longrightarrow> k = 0"
      using nq by (auto simp: nth_Cons split: nat.splits)
    then show ?thesis using i0 qj by auto
  next
    case (Some m)
    from Cons.IH[OF Some] have m: "m < length js" "state (js ! m) = Queued"
      and least: "\<forall>k<length js. state (js ! k) = Queued \<longrightarrow> queuedAt (js ! m) \<le> queuedAt (js ! k)"
      by auto
    show ?thesis
    proof (cases "state j = Queued \<and> queuedAt j \<le> queuedAt (js ! m)")
      case True
      with Cons.prems Some have i0: "i = 0" by simp
      have "\<forall>k<length (j # js). state ((j # js) ! k) = Queued \<longrightarrow> queuedAt j \<le> queuedAt ((j # js) ! k)"
      proof (intro allI impI)
        fix k assume k: "k < length (j # js)" and q: "state ((j # js) ! k) = Queued"
        show "queuedAt j \<le> queuedAt ((j # js) ! k)"
        proof (cases k)
          case 0 then show ?thesis by simp
        next
          case (Suc k')
          with k q least have "queuedAt (js ! m) \<le> queuedAt (js ! k')" by simp
          with True Suc show ?thesis by simp
        qed
      qed
      with True i0 show ?thesis by simp
    next
      case False
      with Cons.prems Some have iS: "i = Suc m" by (auto split: if_splits)
      have "\<forall>k<length (j # js). state ((j # js) ! k) = Queued \<longrightarrow> queuedAt (js ! m) \<le> queuedAt ((j # js) ! k)"
      proof (intro allI impI)
        fix k assume k: "k < length (j # js)" and q: "state ((j # js) ! k) = Queued"
        show "queuedAt (js ! m) \<le> queuedAt ((j # js) ! k)"
        proof (cases k)
          case 0 with q False show ?thesis by simp
        next
          case (Suc k')
          with k q least show ?thesis by simp
        qed
      qed
      with iS m show ?thesis by simp
    qed
  qed
qed

lemma claimJob_keeps_claimed:
  assumes "i < length db" and "state (db ! i) \<noteq> Queued"
  shows "fst (claimJob cfg w t t2 db) ! i = db ! i"
proof (cases "oldest_queued db")
  case None
  then show ?thesis by (simp add: claimJob_def)
next
  case (Some k)
  from oldest_queued_Some[OF Some] assms have "k \<noteq> i" by auto
  with Some show ?thesis by (simp add: claimJob_def Let_def)
qed

text \<open>
  Claim C1, as amended. \<open>claimJob\<close> returns \<open>null\<close> and changes nothing exactly when
  no job is queued. Otherwise it changes one document: a queued job whose \<open>queuedAt\<close>
  is least among the queued jobs. That job becomes \<open>in_progress\<close> with the worker's
  id, \<open>startedAt\<close> the first clock read, \<open>lockUntil\<close> the second clock read plus the
  lock timeout and \<open>attempts\<close> one higher, and it is the value returned. No later
  \<open>claimJob\<close> call touches that document. The sort has no second key: which of
  several jobs with the same least \<open>queuedAt\<close> is taken is not fixed by the identifier.
\<close>

theorem claimJob_takes_oldest_queued:
  "(case claimJob cfg w now now_lock db of
      (db', None) \<Rightarrow> db' = db \<and> (\<forall>j\<in>set db. state j \<noteq> Queued)
    | (db', Some j') \<Rightarrow>
        (\<exists>i<length db.
           state (db ! i) = Queued \<and>
           (\<forall>k<length db. state (db ! k) = Queued \<longrightarrow> queuedAt (db ! i) \<le> queuedAt (db ! k)) \<and>
           j' = (db ! i)\<lparr>state := InProgress, workerId := Some w, startedAt := Some now,
                         lockUntil := Some (now_lock + jobLockTimeoutMs cfg),
                         attempts := attempts (db ! i) + 1\<rparr> \<and>
           db' = db[i := j'] \<and>
           (\<forall>w2 t t2. fst (claimJob cfg w2 t t2 db') ! i = j')))"
proof (cases "oldest_queued db")
  case None
  then have c: "claimJob cfg w now now_lock db = (db, None)" by (simp add: claimJob_def)
  from None have "\<forall>j\<in>set db. state j \<noteq> Queued" by (simp only: oldest_queued_None)
  then show ?thesis unfolding c by simp
next
  case (Some i)
  let ?j = "claim_update cfg w now now_lock (db ! i)"
  from oldest_queued_Some[OF Some] have i: "i < length db" and q: "state (db ! i) = Queued"
    and least: "\<forall>k<length db. state (db ! k) = Queued \<longrightarrow> queuedAt (db ! i) \<le> queuedAt (db ! k)"
    by auto
  have c: "claimJob cfg w now now_lock db = (db[i := ?j], Some ?j)"
    using Some by (simp add: claimJob_def Let_def)
  have later: "\<forall>w2 t t2. fst (claimJob cfg w2 t t2 (db[i := ?j])) ! i = ?j"
  proof (intro allI)
    fix w2 t t2
    have "fst (claimJob cfg w2 t t2 (db[i := ?j])) ! i = (db[i := ?j]) ! i"
      using i by (intro claimJob_keeps_claimed) (simp_all add: claim_update_def)
    then show "fst (claimJob cfg w2 t t2 (db[i := ?j])) ! i = ?j" using i by simp
  qed
  have upd: "?j = (db ! i)\<lparr>state := InProgress, workerId := Some w, startedAt := Some now,
                         lockUntil := Some (now_lock + jobLockTimeoutMs cfg),
                         attempts := attempts (db ! i) + 1\<rparr>"
    by (simp add: claim_update_def)
  show ?thesis
    unfolding c using i q least later upd by (auto intro!: exI[of _ i])
qed

theorem claimJob_takes_oldest_queued_witness:
  "map state tie_db = [Queued, Queued] \<and>
   claimJob default_config ''w1'' 10 11 tie_db =
     ([(tie_db ! 0)\<lparr>state := InProgress, workerId := Some ''w1'', startedAt := Some 10,
                    lockUntil := Some 300011, attempts := 1\<rparr>, tie_db ! 1],
      Some ((tie_db ! 0)\<lparr>state := InProgress, workerId := Some ''w1'', startedAt := Some 10,
                         lockUntil := Some 300011, attempts := 1\<rparr>))"
  using claimJob_takes_oldest_queued
          [where cfg = default_config and w = "''w1''" and now = 10 and now_lock = 11 and db = tie_db]
  by (simp add: tie_db_def createJob_def claimJob_def claim_update_def default_config_def Let_def)

theorem claim_tie_counterexample:
  "map job_id tie_db = [2, 1] \<and> map state tie_db = [Queued, Queued] \<and>
   map queuedAt tie_db = [5, 5] \<and>
   map_option job_id (snd (claimJob default_config ''w1'' 10 10 tie_db)) = Some 2"
  by (simp add: tie_db_def createJob_def claimJob_def claim_update_def default_config_def Let_def)

lemma updateMany_nth:
  "i < length db \<Longrightarrow> updateMany P f db ! i = (if P (db ! i) then f (db ! i) else db ! i)"
  by (simp add: updateMany_def)

lemma length_updateMany: "length (updateMany P f db) = length db"
  by (simp add: updateMany_def)

text \<open>
  Claim C2, as amended. After \<open>resetStaleJobs\<close> the collection has the same documents
  in the same places, and: a job that is \<open>in_progress\<close>, whose lock has expired when
  the first sweep reads the clock or whose \<open>startedAt\<close> is older than the stale
  threshold, and whose attempts are below the maximum, is \<open>queued\<close> with worker id
  and lock \<open>null\<close>; such a job (judged when the second sweep reads the clock) whose
  attempts have reached the maximum is \<open>failed\<close> with \<open>finishedAt\<close> set and the
  result \<open>{error: 'Job exceeded maximum attempts and became stale'}\<close>; a job in any
  other state is unchanged.
\<close>

theorem resetStaleJobs_sweeps:
  "(case resetStaleJobs cfg now_thr now_reset now_fail now_fin db of
      (db', n_reset, n_failed) \<Rightarrow>
        length db' = length db \<and>
        (\<forall>i<length db.
           (state (db ! i) = InProgress \<and>
            (date_lt (lockUntil (db ! i)) now_reset \<or>
             date_lt (startedAt (db ! i)) (now_thr - jobStaleThresholdMs cfg)) \<and>
            attempts (db ! i) < maxJobAttempts cfg \<longrightarrow>
              db' ! i = (db ! i)\<lparr>state := Queued, workerId := None, lockUntil := None\<rparr>) \<and>
           (state (db ! i) = InProgress \<and>
            (date_lt (lockUntil (db ! i)) now_fail \<or>
             date_lt (startedAt (db ! i)) (now_thr - jobStaleThresholdMs cfg)) \<and>
            attempts (db ! i) \<ge> maxJobAttempts cfg \<longrightarrow>
              db' ! i = (db ! i)\<lparr>state := Failed, finishedAt := Some now_fin,
                                    result := Some (ResultError
                                      ''Job exceeded maximum attempts and became stale'' None)\<rparr>) \<and>
           (state (db ! i) \<noteq> InProgress \<longrightarrow> db' ! i = db ! i)))"
  by (auto simp: resetStaleJobs_def Let_def updateMany_nth length_updateMany stale_def
        stale_message_def)

theorem resetStaleJobs_sweeps_witness:
  "map state claimed_db = [InProgress] \<and> map attempts claimed_db = [1] \<and>
   map lockUntil claimed_db = [Some 301000] \<and>
   fst (resetStaleJobs default_config 400000 400000 400000 400000 claimed_db) =
     [(claimed_db ! 0)\<lparr>state := Queued, workerId := None, lockUntil := None\<rparr>] \<and>
   map state stale_db = [InProgress] \<and> map attempts stale_db = [3] \<and>
   map lockUntil stale_db = [Some 1101000] \<and>
   fst (resetStaleJobs default_config 1200000 1200000 1200000 1200000 stale_db) =
     [(stale_db ! 0)\<lparr>state := Failed, finishedAt := Some 1200000,
                     result := Some (ResultError
                       ''Job exceeded maximum attempts and became stale'' None)\<rparr>] \<and>
   fst (resetStaleJobs default_config 1200000 1200000 1200000 1200000 done_db) = done_db"
  using resetStaleJobs_sweeps [where cfg = default_config and now_thr = 400000 and now_reset = 400000
        and now_fail = 400000 and now_fin = 400000 and db = claimed_db]
    resetStaleJobs_sweeps [where cfg = default_config and now_thr = 1200000 and now_reset = 1200000
        and now_fail = 1200000 and now_fin = 1200000 and db = stale_db]
    resetStaleJobs_sweeps [where cfg = default_config and now_thr = 1200000 and now_reset = 1200000
        and now_fail = 1200000 and now_fin = 1200000 and db = done_db]
  by (simp add: claimed_db_def stale_db_def done_db_def createJob_def claimJob_def claim_update_def
        completeJob_def resetStaleJobs_def updateMany_def stale_def stale_message_def
        default_config_def Let_def)

theorem stale_message_counterexample:
  "map state stale_db = [InProgress] \<and> map attempts stale_db = [3] \<and>
   map lockUntil stale_db = [Some 1101000] \<and>
   map result (fst (resetStaleJobs default_config 1200000 1200000 1200000 1200000 stale_db)) =
     [Some (ResultError ''Job exceeded maximum attempts and became stale'' None)] \<and>
   map result (fst (resetStaleJobs default_config 1200000 1200000 1200000 1200000 stale_db)) \<noteq>
     [Some (ResultError ''exceeded maximum attempts and became stale'' None)]"
  by (simp add: stale_db_def createJob_def claimJob_def claim_update_def resetStaleJobs_def
        updateMany_def stale_def stale_message_def default_config_def Let_def)

lemma oldest_queued_queued:
  "oldest_queued db = Some i \<Longrightarrow> i < length db \<and> state (db ! i) = Queued"
  using oldest_queued_Some by blast

lemma keeps_refl: "keeps jobId j j"
  by (simp add: keeps_def)

lemma keeps_trans: "keeps jobId a b \<Longrightarrow> keeps jobId b c \<Longrightarrow> keeps jobId a c"
  by (auto simp: keeps_def)

lemma job_state_of_keeps:
  "list_all2 (keeps jobId) db db' \<Longrightarrow> job_state_of db jobId = Some s \<Longrightarrow> terminal s \<Longrightarrow>
     job_state_of db' jobId = Some s"
proof (induction rule: list_all2_induct)
  case Nil
  then show ?case by (simp add: job_state_of_def getJobById_def)
next
  case (Cons j db j' db')
  then show ?case
    by (auto simp: job_state_of_def getJobById_def keeps_def split: if_splits)
qed

lemma job_state_of_append:
  "job_state_of db jobId = Some s \<Longrightarrow> job_state_of (db @ extra) jobId = Some s"
  by (induction db) (auto simp: job_state_of_def getJobById_def)

lemma updateOne_keeps:
  "(\<And>j. P j \<Longrightarrow> keeps jobId j (f j)) \<Longrightarrow> list_all2 (keeps jobId) db (updateOne P f db)"
  by (induction db) (auto simp: keeps_refl list.rel_refl)

lemma updateMany_keeps:
  "(\<And>j. P j \<Longrightarrow> keeps jobId j (f j)) \<Longrightarrow> list_all2 (keeps jobId) db (updateMany P f db)"
  by (induction db) (auto simp: updateMany_def keeps_refl)

lemma list_update_keeps:
  "i < length db \<Longrightarrow> keeps jobId (db ! i) j' \<Longrightarrow> list_all2 (keeps jobId) db (db[i := j'])"
  by (auto simp: list_all2_conv_all_nth nth_list_update keeps_refl)

lemma list_all2_keeps_trans:
  "list_all2 (keeps jobId) a b \<Longrightarrow> list_all2 (keeps jobId) b c \<Longrightarrow> list_all2 (keeps jobId) a c"
  by (rule list_all2_trans[of "keeps jobId" "keeps jobId" "keeps jobId"]) (auto intro: keeps_trans)

lemma claimJob_keeps: "list_all2 (keeps jobId) db (fst (claimJob cfg w t t2 db))"
proof (cases "oldest_queued db")
  case None
  then show ?thesis by (simp add: claimJob_def list.rel_refl keeps_refl)
next
  case (Some i)
  from oldest_queued_queued[OF Some] have i: "i < length db" and q: "state (db ! i) = Queued" by auto
  have "keeps jobId (db ! i) (claim_update cfg w t t2 (db ! i))"
    using q by (simp add: keeps_def claim_update_def)
  with i Some show ?thesis
    by (simp add: claimJob_def Let_def list_update_keeps)
qed

lemma resetStaleJobs_keeps:
  "list_all2 (keeps jobId) db (fst (resetStaleJobs cfg t1 t2 t3 t4 db))"
proof -
  let ?thr = "t1 - jobStaleThresholdMs cfg"
  let ?db1 = "updateMany (\<lambda>j. stale t2 ?thr j \<and> attempts j < maxJobAttempts cfg)
                (\<lambda>j. j\<lparr>state := Queued, workerId := None, lockUntil := None\<rparr>) db"
  have a: "list_all2 (keeps jobId) db ?db1"
    by (rule updateMany_keeps) (auto simp: keeps_def stale_def)
  have b: "list_all2 (keeps jobId) ?db1
             (updateMany (\<lambda>j. stale t3 ?thr j \<and> attempts j \<ge> maxJobAttempts cfg)
                (\<lambda>j. j\<lparr>state := Failed, finishedAt := Some t4,
                       result := Some (ResultError stale_message None)\<rparr>) ?db1)"
    by (rule updateMany_keeps) (auto simp: keeps_def stale_def)
  from list_all2_keeps_trans[OF a b] show ?thesis
    by (simp add: resetStaleJobs_def Let_def)
qed

lemma apply_op_keeps_state:
  assumes "job_state_of db jobId = Some s" and "terminal s" and "\<not> finishes jobId operation"
  shows "job_state_of (apply_op cfg operation db) jobId = Some s"
proof (cases operation)
  case (Create new_id fid now)
  then show ?thesis using assms(1)
    by (auto simp: createJob_def Let_def job_state_of_append)
next
  case (Claim w t t2)
  then show ?thesis using job_state_of_keeps[OF claimJob_keeps assms(1,2)] by simp
next
  case (UpdateProgress k p now)
  have "list_all2 (keeps jobId) db (updateJobProgress cfg k p now db)"
    unfolding updateJobProgress_def by (rule updateOne_keeps) (simp add: keeps_def)
  from job_state_of_keeps[OF this assms(1,2)] UpdateProgress show ?thesis by simp
next
  case (Complete k res now)
  with assms(3) have "k \<noteq> jobId" by simp
  then have "list_all2 (keeps jobId) db (completeJob k res now db)"
    unfolding completeJob_def by (intro updateOne_keeps) (simp add: keeps_def)
  from job_state_of_keeps[OF this assms(1,2)] Complete show ?thesis by simp
next
  case (Fail k message stack now)
  with assms(3) have "k \<noteq> jobId" by simp
  then have "list_all2 (keeps jobId) db (failJob k message stack now db)"
    unfolding failJob_def by (intro updateOne_keeps) (simp add: keeps_def)
  from job_state_of_keeps[OF this assms(1,2)] Fail show ?thesis by simp
next
  case (AppendError k message now)
  have "list_all2 (keeps jobId) db (addJobError k message now db)"
    unfolding addJobError_def by (rule updateOne_keeps) (simp add: keeps_def)
  from job_state_of_keeps[OF this assms(1,2)] AppendError show ?thesis by simp
next
  case (RecoverStale t1 t2 t3 t4)
  then show ?thesis using job_state_of_keeps[OF resetStaleJobs_keeps assms(1,2)] by simp
qed

text \<open>
  Claim C3, as amended. Once a job is \<open>completed\<close> or \<open>failed\<close>, no sequence of
  \<open>create\<close>, \<open>claim\<close>, \<open>update_progress\<close>, \<open>append_error\<close> and \<open>recover_stale\<close>
  operations, nor \<open>complete\<close> or \<open>fail\<close> addressed to other jobs, changes its state.
  \<open>completeJob\<close> and \<open>failJob\<close> themselves filter on the identifier only and set
  the state of the job they are given whatever it was.
\<close>

theorem terminal_state_kept:
  "job_state_of db jobId = Some s \<Longrightarrow> terminal s \<Longrightarrow>
   \<forall>operation\<in>set ops. \<not> finishes jobId operation \<Longrightarrow>
   job_state_of (run_ops cfg ops db) jobId = Some s"
proof (induction ops arbitrary: db)
  case Nil
  then show ?case by simp
next
  case (Cons operation ops)
  from Cons.prems have "job_state_of (apply_op cfg operation db) jobId = Some s"
    by (intro apply_op_keeps_state) simp_all
  with Cons show ?case by simp
qed

theorem terminal_state_kept_witness:
  "job_state_of done_db 1 = Some Completed \<and> terminal Completed \<and>
   filter (finishes 1) other_ops = [] \<and>
   job_state_of (run_ops default_config other_ops done_db) 1 = Some Completed"
proof -
  have a: "job_state_of done_db 1 = Some Completed"
    by (simp add: done_db_def createJob_def claimJob_def claim_update_def completeJob_def
          job_state_of_def getJobById_def default_config_def Let_def)
  have b: "terminal Completed" by simp
  have c: "\<forall>operation\<in>set other_ops. \<not> finishes 1 operation"
    by (simp add: other_ops_def)
  have d: "filter (finishes 1) other_ops = []"
    by (simp add: other_ops_def)
  from terminal_state_kept [OF a b c, where cfg = default_config] a b d show ?thesis by simp
qed

theorem terminal_counterexample:
  "job_state_of done_db 1 = Some Completed \<and>
   job_state_of (run_ops default_config [Fail 1 ''boom'' None 3000] done_db) 1 = Some Failed"
  by (simp add: done_db_def createJob_def claimJob_def claim_update_def completeJob_def failJob_def
        job_state_of_def getJobById_def default_config_def Let_def)

section \<open>Properties of the processing worker\<close>

lemma bulk_sizes_append: "bulk_sizes (a @ b) = bulk_sizes a @ bulk_sizes b"
  by (induction a) auto

lemma kind_parseJsonLine: "kind_of (parseJsonLine jp line n) = kind_of (parseJsonLine jp line 0)"
  by (auto simp: parseJsonLine_def Let_def split: sum.splits)

lemma kind_parseCsvLine: "kind_of (parseCsvLine line n h) = kind_of (parseCsvLine line 0 h)"
  by (auto simp: parseCsvLine_def Let_def split: option.splits)

lemma kind_parseTextLine: "kind_of (parseTextLine line n) = kind_of (parseTextLine line 0)"
  by (auto simp: parseTextLine_def Let_def)

lemma ok_parseJsonLine: "ok_result (parseJsonLine jp line n) = ok_result (parseJsonLine jp line 0)"
  by (auto simp: parseJsonLine_def Let_def split: sum.splits)

lemma ok_parseCsvLine: "ok_result (parseCsvLine line n h) = ok_result (parseCsvLine line 0 h)"
  by (auto simp: parseCsvLine_def Let_def split: option.splits)

lemma kind_parseLineAuto: "kind_of (parseLineAuto jp line n) = kind_of (parseLineAuto jp line 0)"
  using kind_parseJsonLine[of jp line n] kind_parseCsvLine[of line n None] kind_parseTextLine[of line n]
    ok_parseJsonLine[of jp line n] ok_parseCsvLine[of line n None]
  by (simp add: parseLineAuto_def Let_def)

lemma run_parser_kind: "kind_of (run_parser jp p line n) = line_kind jp p line"
  unfolding line_kind_def
  by (cases p) (simp_all add: kind_parseJsonLine[of jp line n] kind_parseCsvLine[of line n]
      kind_parseTextLine[of line n] kind_parseLineAuto[of jp line n])

lemma kind_None: "kind_of r = EmptyLine \<longleftrightarrow> r = None"
  by (cases r rule: kind_of.cases) auto

lemma kind_Valid: "kind_of r = ValidData \<longleftrightarrow> (\<exists>n d. r = Some (Success n d) \<and> validateParsedData d)"
  by (cases r rule: kind_of.cases) auto

lemma kind_rejected:
  "rejected (kind_of r) \<longleftrightarrow>
     (\<exists>n e raw. r = Some (Failure n e raw)) \<or> (\<exists>n d. r = Some (Success n d) \<and> \<not> validateParsedData d)"
  by (cases r rule: kind_of.cases) (auto simp: rejected_def)

lemma kind_exhaust: "k = EmptyLine \<or> k = ValidData \<or> rejected k"
  by (cases k) (auto simp: rejected_def)

lemma transform_empty:
  assumes "line_kind jp p line = EmptyLine"
  shows "transform cfg jp p fid jobId st (line, io) = Some (st\<lparr>lineNumber := lineNumber st + 1\<rparr>)"
proof -
  from assms have "run_parser jp p line (lineNumber st + 1) = None"
    using run_parser_kind[of jp p line "lineNumber st + 1"] by (simp add: kind_None)
  then show ?thesis by (simp add: transform_def transform_body_def Let_def)
qed

lemma transform_rejected:
  assumes "rejected (line_kind jp p line)"
    and "transform cfg jp p fid jobId st (line, io) = Some st'"
  shows "lineNumber st' = lineNumber st + 1 \<and> linesProcessed st' = linesProcessed st \<and>
         recordsInserted st' = recordsInserted st \<and> batch st' = batch st \<and>
         errorCount st' = errorCount st + (if addErrorOk io then 1 else 2) \<and>
         (addErrorOk io \<or> addErrorRetryOk io) \<and>
         (\<exists>es. effects st' = effects st @ es \<and> (\<forall>e\<in>set es. \<exists>m ok. e = AddJobError jobId m ok))"
proof -
  from assms(1) have "rejected (kind_of (run_parser jp p line (lineNumber st + 1)))"
    by (simp add: run_parser_kind)
  then consider (fail) n e raw where "run_parser jp p line (lineNumber st + 1) = Some (Failure n e raw)"
    | (invalid) n d where "run_parser jp p line (lineNumber st + 1) = Some (Success n d)"
        "\<not> validateParsedData d"
    unfolding kind_rejected by blast
  then show ?thesis
  proof cases
    case fail
    with assms(2) show ?thesis
      by (auto simp: transform_def transform_body_def count_line_error_def emit_def Let_def
               split: if_splits)
  next
    case invalid
    with assms(2) show ?thesis
      by (auto simp: transform_def transform_body_def count_line_error_def emit_def Let_def
               split: if_splits)
  qed
qed

lemma transform_rejected_returns:
  assumes "rejected (line_kind jp p line)"
  shows "transform cfg jp p fid jobId st (line, io) \<noteq> None \<longleftrightarrow> addErrorOk io \<or> addErrorRetryOk io"
proof -
  from assms(1) have "rejected (kind_of (run_parser jp p line (lineNumber st + 1)))"
    by (simp add: run_parser_kind)
  then consider (fail) n e raw where "run_parser jp p line (lineNumber st + 1) = Some (Failure n e raw)"
    | (invalid) n d where "run_parser jp p line (lineNumber st + 1) = Some (Success n d)"
        "\<not> validateParsedData d"
    unfolding kind_rejected by blast
  then show ?thesis
  proof cases
    case fail
    then show ?thesis
      by (auto simp: transform_def transform_body_def count_line_error_def emit_def Let_def)
  next
    case invalid
    then show ?thesis
      by (auto simp: transform_def transform_body_def count_line_error_def emit_def Let_def)
  qed
qed

lemma transform_valid:
  assumes "line_kind jp p line = ValidData"
  shows "\<exists>r. transform cfg jp p fid jobId st (line, io) =
           Some (let st1 = st\<lparr>lineNumber := lineNumber st + 1,
                               linesProcessed := linesProcessed st + 1,
                               batch := batch st @ [r]\<rparr>
                 in if jobBatchSize cfg \<le> int (length (batch st1))
                    then write_batch cfg jobId io st1 else st1)"
proof -
  from assms obtain n d where "run_parser jp p line (lineNumber st + 1) = Some (Success n d)"
    and "validateParsedData d"
    using run_parser_kind[of jp p line "lineNumber st + 1"] by (auto simp: kind_Valid)
  then show ?thesis
    by (auto simp: transform_def transform_body_def Let_def)
qed

lemma write_batch_fields:
  "lineNumber (write_batch cfg jobId io st) = lineNumber st"
  "linesProcessed (write_batch cfg jobId io st) = linesProcessed st"
  "batch (write_batch cfg jobId io st) = []"
  "recordsInserted (write_batch cfg jobId io st) =
     recordsInserted st + (if insertOk io then length (batch st) else 0)"
  "errorCount (write_batch cfg jobId io st) =
     errorCount st + (if insertOk io \<and> progressOk io then 0 else length (batch st))"
  "bulk_sizes (effects (write_batch cfg jobId io st)) = bulk_sizes (effects st) @ [length (batch st)]"
  "list_all stream_effect (effects (write_batch cfg jobId io st)) = list_all stream_effect (effects st)"
  by (auto simp: write_batch_def emit_def Let_def bulk_sizes_append)

lemma flush_fields:
  "lineNumber (flush jobId io st) = lineNumber st"
  "linesProcessed (flush jobId io st) = linesProcessed st"
  "batch (flush jobId io st) = batch st"
  "recordsInserted (flush jobId io st) =
     recordsInserted st + (if insertOk io then length (batch st) else 0)"
  "errorCount (flush jobId io st) =
     errorCount st + (if insertOk io \<and> progressOk io then 0 else length (batch st))"
  "bulk_sizes (effects (flush jobId io st)) =
     bulk_sizes (effects st) @ (if batch st = [] then [] else [length (batch st)])"
  "list_all stream_effect (effects (flush jobId io st)) = list_all stream_effect (effects st)"
  by (auto simp: flush_def emit_def Let_def bulk_sizes_append)

lemma count_kind_Cons:
  "count_kind k jp p (x # xs) = (if line_kind jp p (fst x) = k then 1 else 0) + count_kind k jp p xs"
  by (simp add: count_kind_def)

lemma count_kind_Nil: "count_kind k jp p [] = 0"
  by (simp add: count_kind_def)

lemma transform_counters:
  assumes "transform cfg jp p fid jobId st (line, io) = Some st'"
  shows "lineNumber st' = lineNumber st + 1"
    and "linesProcessed st' = linesProcessed st + (if line_kind jp p line = ValidData then 1 else 0)"
    and "recordsInserted st + length (batch st) \<le> linesProcessed st \<Longrightarrow>
           recordsInserted st' + length (batch st') \<le> linesProcessed st'"
    and "list_all stream_effect (effects st) \<Longrightarrow> list_all stream_effect (effects st')"
proof -
  consider (empty) "line_kind jp p line = EmptyLine" | (valid) "line_kind jp p line = ValidData"
    | (rej) "rejected (line_kind jp p line)"
    using kind_exhaust by blast
  then have "lineNumber st' = lineNumber st + 1 \<and>
      linesProcessed st' = linesProcessed st + (if line_kind jp p line = ValidData then 1 else 0) \<and>
      (recordsInserted st + length (batch st) \<le> linesProcessed st \<longrightarrow>
           recordsInserted st' + length (batch st') \<le> linesProcessed st') \<and>
      (list_all stream_effect (effects st) \<longrightarrow> list_all stream_effect (effects st'))"
  proof cases
    case empty
    with assms transform_empty[OF empty, of cfg fid jobId st io] show ?thesis by auto
  next
    case valid
    from transform_valid[OF valid, of cfg fid jobId st io] assms obtain r where
      "st' = (let st1 = st\<lparr>lineNumber := lineNumber st + 1,
                               linesProcessed := linesProcessed st + 1,
                               batch := batch st @ [r]\<rparr>
                 in if jobBatchSize cfg \<le> int (length (batch st1))
                    then write_batch cfg jobId io st1 else st1)" by auto
    with valid show ?thesis by (auto simp: Let_def write_batch_fields)
  next
    case rej
    from transform_rejected[OF rej assms] obtain es where
      f: "lineNumber st' = lineNumber st + 1" "linesProcessed st' = linesProcessed st"
         "recordsInserted st' = recordsInserted st" "batch st' = batch st"
      and es: "effects st' = effects st @ es" "\<forall>e\<in>set es. \<exists>m ok. e = AddJobError jobId m ok"
      by auto
    from es(2) have "list_all stream_effect es" by (auto simp: list_all_iff)
    with f es(1) rej show ?thesis by (auto simp: rejected_def)
  qed
  then show "lineNumber st' = lineNumber st + 1"
    and "linesProcessed st' = linesProcessed st + (if line_kind jp p line = ValidData then 1 else 0)"
    and "recordsInserted st + length (batch st) \<le> linesProcessed st \<Longrightarrow>
           recordsInserted st' + length (batch st') \<le> linesProcessed st'"
    and "list_all stream_effect (effects st) \<Longrightarrow> list_all stream_effect (effects st')"
    by auto
qed

lemma run_lines_counters:
  assumes "run_lines cfg jp p fid jobId st inputs = Some st'"
  shows "lineNumber st' = lineNumber st + length inputs \<and>
         linesProcessed st' = linesProcessed st + count_kind ValidData jp p inputs \<and>
         (recordsInserted st + length (batch st) \<le> linesProcessed st \<longrightarrow>
            recordsInserted st' + length (batch st') \<le> linesProcessed st') \<and>
         (list_all stream_effect (effects st) \<longrightarrow> list_all stream_effect (effects st'))"
  using assms
proof (induction inputs arbitrary: st)
  case Nil
  then show ?case by (simp add: count_kind_Nil)
next
  case (Cons x xs)
  obtain line io where x: "x = (line, io)" by (cases x)
  from Cons.prems obtain st1 where t: "transform cfg jp p fid jobId st (line, io) = Some st1"
    and r: "run_lines cfg jp p fid jobId st1 xs = Some st'"
    by (auto simp: x split: option.splits)
  from transform_counters[OF t] Cons.IH[OF r] show ?case
    by (auto simp: x count_kind_Cons)
qed

lemma transform_accounting:
  assumes "transform cfg jp p fid jobId st (line, io) = Some st'" and "writes_ok io"
  shows "recordsInserted st' + errorCount st' + length (batch st') =
           recordsInserted st + errorCount st + length (batch st) +
           (if line_kind jp p line = EmptyLine then 0 else 1)"
proof -
  consider (empty) "line_kind jp p line = EmptyLine" | (valid) "line_kind jp p line = ValidData"
    | (rej) "rejected (line_kind jp p line)"
    using kind_exhaust by blast
  then show ?thesis
  proof cases
    case empty
    with assms transform_empty[OF empty, of cfg fid jobId st io] show ?thesis by auto
  next
    case valid
    from transform_valid[OF valid, of cfg fid jobId st io] assms obtain r where
      "st' = (let st1 = st\<lparr>lineNumber := lineNumber st + 1,
                               linesProcessed := linesProcessed st + 1,
                               batch := batch st @ [r]\<rparr>
                 in if jobBatchSize cfg \<le> int (length (batch st1))
                    then write_batch cfg jobId io st1 else st1)" by auto
    with valid assms(2) show ?thesis by (auto simp: Let_def write_batch_fields writes_ok_def)
  next
    case rej
    from transform_rejected[OF rej assms(1)] rej assms(2) show ?thesis
      by (auto simp: rejected_def writes_ok_def)
  qed
qed

lemma run_lines_accounting:
  assumes "run_lines cfg jp p fid jobId st inputs = Some st'"
    and "\<forall>x\<in>set inputs. writes_ok (snd x)"
  shows "recordsInserted st' + errorCount st' + length (batch st') =
           recordsInserted st + errorCount st + length (batch st) +
           (length inputs - count_kind EmptyLine jp p inputs)"
  using assms
proof (induction inputs arbitrary: st)
  case Nil
  then show ?case by (simp add: count_kind_Nil)
next
  case (Cons x xs)
  obtain line io where x: "x = (line, io)" by (cases x)
  from Cons.prems obtain st1 where t: "transform cfg jp p fid jobId st (line, io) = Some st1"
    and r: "run_lines cfg jp p fid jobId st1 xs = Some st'"
    by (auto simp: x split: option.splits)
  have le: "count_kind EmptyLine jp p xs \<le> length xs"
    by (simp add: count_kind_def)
  from Cons.prems have w: "writes_ok io" and ws: "\<forall>x\<in>set xs. writes_ok (snd x)"
    by (auto simp: x)
  from transform_accounting[OF t w] Cons.IH[OF r ws] le show ?case
    by (auto simp: x count_kind_Cons)
qed

lemma count_kinds_total:
  "count_kind EmptyLine jp p inputs + count_kind ValidData jp p inputs + rejected_lines jp p inputs
     = length inputs"
proof (induction inputs)
  case Nil
  then show ?case by (simp add: count_kind_Nil rejected_lines_def)
next
  case (Cons x xs)
  then show ?case
    by (cases "line_kind jp p (fst x)") (auto simp: count_kind_Cons rejected_lines_def)
qed

lemma transform_batching:
  assumes t: "transform cfg jp p fid jobId st (line, io) = Some st'"
    and B: "0 < B" "jobBatchSize cfg = int B" and b: "length (batch st) < B"
  shows "if line_kind jp p line = ValidData
         then (if Suc (length (batch st)) = B
               then batch st' = [] \<and> bulk_sizes (effects st') = bulk_sizes (effects st) @ [B]
               else length (batch st') = Suc (length (batch st)) \<and>
                    bulk_sizes (effects st') = bulk_sizes (effects st))
         else batch st' = batch st \<and> bulk_sizes (effects st') = bulk_sizes (effects st)"
proof -
  consider (empty) "line_kind jp p line = EmptyLine" | (valid) "line_kind jp p line = ValidData"
    | (rej) "rejected (line_kind jp p line)"
    using kind_exhaust by blast
  then show ?thesis
  proof cases
    case empty
    with t transform_empty[OF empty, of cfg fid jobId st io] show ?thesis by auto
  next
    case valid
    from transform_valid[OF valid, of cfg fid jobId st io] t obtain r where
      "st' = (let st1 = st\<lparr>lineNumber := lineNumber st + 1,
                               linesProcessed := linesProcessed st + 1,
                               batch := batch st @ [r]\<rparr>
                 in if jobBatchSize cfg \<le> int (length (batch st1))
                    then write_batch cfg jobId io st1 else st1)" by auto
    with valid B b show ?thesis by (auto simp: Let_def write_batch_fields)
  next
    case rej
    from transform_rejected[OF rej t] obtain es where
      f: "batch st' = batch st"
      and es: "effects st' = effects st @ es" "\<forall>e\<in>set es. \<exists>m ok. e = AddJobError jobId m ok"
      by auto
    from es(2) have "bulk_sizes es = []"
      by (induction es) auto
    with f es(1) rej show ?thesis by (auto simp: rejected_def bulk_sizes_append)
  qed
qed

lemma run_lines_batching:
  assumes "run_lines cfg jp p fid jobId st inputs = Some st'"
    and "0 < B" and "jobBatchSize cfg = int B" and "length (batch st) < B"
  shows "length (batch st') = (length (batch st) + count_kind ValidData jp p inputs) mod B \<and>
         bulk_sizes (effects st') =
           bulk_sizes (effects st) @
           replicate ((length (batch st) + count_kind ValidData jp p inputs) div B) B"
  using assms
proof (induction inputs arbitrary: st)
  case Nil
  then show ?case by (simp add: count_kind_Nil)
next
  case (Cons x xs)
  obtain line io where x: "x = (line, io)" by (cases x)
  from Cons.prems obtain st1 where t: "transform cfg jp p fid jobId st (line, io) = Some st1"
    and r: "run_lines cfg jp p fid jobId st1 xs = Some st'"
    by (auto simp: x split: option.splits)
  note step = transform_batching[OF t Cons.prems(2,3,4)]
  let ?v = "count_kind ValidData jp p xs"
  show ?case
  proof (cases "line_kind jp p line = ValidData")
    case False
    with step have s1: "batch st1 = batch st" "bulk_sizes (effects st1) = bulk_sizes (effects st)"
      by auto
    with Cons.prems have "length (batch st1) < B" by simp
    from Cons.IH[OF r Cons.prems(2,3) this] s1 False show ?thesis
      by (simp add: x count_kind_Cons)
  next
    case True
    show ?thesis
    proof (cases "Suc (length (batch st)) = B")
      case full: True
      with step True have s1: "batch st1 = []" "bulk_sizes (effects st1) = bulk_sizes (effects st) @ [B]"
        by auto
      with Cons.prems have "length (batch st1) < B" by simp
      from Cons.IH[OF r Cons.prems(2,3) this] s1
      have ih: "length (batch st') = ?v mod B"
        "bulk_sizes (effects st') = bulk_sizes (effects st) @ [B] @ replicate (?v div B) B"
        by auto
      have e: "length (batch st) + (1 + ?v) = B + ?v" using full by simp
      have a: "(length (batch st) + (1 + ?v)) mod B = ?v mod B"
        unfolding e by simp
      have d: "(length (batch st) + (1 + ?v)) div B = Suc (?v div B)"
        unfolding e using Cons.prems(2) by simp
      from ih a d True show ?thesis
        by (simp add: x count_kind_Cons)
    next
      case notfull: False
      with step True have s1: "length (batch st1) = Suc (length (batch st))"
        "bulk_sizes (effects st1) = bulk_sizes (effects st)"
        by auto
      with Cons.prems notfull have "length (batch st1) < B" by simp
      from Cons.IH[OF r Cons.prems(2,3) this] s1 True show ?thesis
        by (simp add: x count_kind_Cons)
    qed
  qed
qed

lemma transform_returns:
  "transform cfg jp p fid jobId st (line, io) \<noteq> None \<longleftrightarrow> error_logged jp p (line, io)"
proof -
  consider (empty) "line_kind jp p line = EmptyLine" | (valid) "line_kind jp p line = ValidData"
    | (rej) "rejected (line_kind jp p line)"
    using kind_exhaust by blast
  then show ?thesis
  proof cases
    case empty
    with transform_empty[OF empty, of cfg fid jobId st io] show ?thesis
      by (simp add: error_logged_def rejected_def)
  next
    case valid
    with transform_valid[OF valid, of cfg fid jobId st io] show ?thesis
      by (auto simp: error_logged_def rejected_def)
  next
    case rej
    with transform_rejected_returns[OF rej, of cfg fid jobId st io] show ?thesis
      by (simp add: error_logged_def)
  qed
qed

lemma run_lines_returns:
  "run_lines cfg jp p fid jobId st inputs \<noteq> None \<longleftrightarrow> (\<forall>x\<in>set inputs. error_logged jp p x)"
proof (induction inputs arbitrary: st)
  case Nil
  then show ?case by simp
next
  case (Cons x xs)
  obtain line io where x: "x = (line, io)" by (cases x)
  show ?case
  proof (cases "transform cfg jp p fid jobId st (line, io)")
    case None
    with transform_returns[of cfg jp p fid jobId st line io] show ?thesis
      by (simp add: x)
  next
    case (Some st1)
    with transform_returns[of cfg jp p fid jobId st line io] Cons.IH[of st1] show ?thesis
      by (simp add: x)
  qed
qed

lemma init_worker_fields:
  "lineNumber init_worker = 0" "linesProcessed init_worker = 0" "recordsInserted init_worker = 0"
  "errorCount init_worker = 0" "batch init_worker = []" "effects init_worker = []"
  by (simp_all add: init_worker_def)

lemma flush_empty_batch: "batch st = [] \<Longrightarrow> flush jobId io st = st"
  by (simp add: flush_def)

text \<open>
  Claim C7. With a batch size \<open>B\<close> of at least one, and every rejected line logged so
  that the pipeline reaches the end of the input: the pipeline returns; when exactly
  \<open>B\<close> lines are valid, the lines cause exactly one bulk insert, of \<open>B\<close> records, and
  \<open>flush\<close> does nothing; when exactly \<open>B + 1\<close> lines are valid there are exactly two
  bulk inserts, the second of one record; and in general \<open>flush\<close> adds one bulk insert
  of the remaining batch when that is not empty, and none otherwise.
\<close>

theorem bulk_inserts_at_batch_boundaries:
  assumes "0 < B" and "jobBatchSize cfg = int B"
    and "\<forall>x\<in>set inputs. error_logged jp p x"
  shows "\<exists>st. run_lines cfg jp p fid jobId init_worker inputs = Some st \<and>
           processStream cfg jp p fid jobId inputs flush_io = Some (flush jobId flush_io st) \<and>
           (count_kind ValidData jp p inputs = B \<longrightarrow>
              bulk_sizes (effects st) = [B] \<and> flush jobId flush_io st = st) \<and>
           (count_kind ValidData jp p inputs = B + 1 \<longrightarrow>
              bulk_sizes (effects (flush jobId flush_io st)) = [B, 1]) \<and>
           bulk_sizes (effects (flush jobId flush_io st)) =
              bulk_sizes (effects st) @ (if batch st = [] then [] else [length (batch st)])"
proof -
  let ?v = "count_kind ValidData jp p inputs"
  from assms(3) obtain st where st: "run_lines cfg jp p fid jobId init_worker inputs = Some st"
    using run_lines_returns[of cfg jp p fid jobId init_worker inputs] by auto
  from run_lines_batching[OF st assms(1,2)] assms(1)
  have len: "length (batch st) = ?v mod B"
    and sizes: "bulk_sizes (effects st) = replicate (?v div B) B"
    by (simp_all add: init_worker_fields)
  have ps: "processStream cfg jp p fid jobId inputs flush_io = Some (flush jobId flush_io st)"
    using st by (simp add: processStream_def)
  have fl: "bulk_sizes (effects (flush jobId flush_io st)) =
              bulk_sizes (effects st) @ (if batch st = [] then [] else [length (batch st)])"
    by (rule flush_fields)
  have exact: "?v = B \<longrightarrow> bulk_sizes (effects st) = [B] \<and> flush jobId flush_io st = st"
  proof
    assume v: "?v = B"
    with len have "batch st = []" by simp
    then have "flush jobId flush_io st = st" by (rule flush_empty_batch)
    moreover from sizes v assms(1) have "bulk_sizes (effects st) = [B]" by simp
    ultimately show "bulk_sizes (effects st) = [B] \<and> flush jobId flush_io st = st" by simp
  qed
  have plus_one: "?v = B + 1 \<longrightarrow> bulk_sizes (effects (flush jobId flush_io st)) = [B, 1]"
  proof
    assume v: "?v = B + 1"
    show "bulk_sizes (effects (flush jobId flush_io st)) = [B, 1]"
    proof (cases "B = 1")
      case True
      with v len have "batch st = []" by simp
      moreover from sizes v True have "bulk_sizes (effects st) = [1, 1]"
        by (simp add: numeral_2_eq_2)
      ultimately show ?thesis using fl True by simp
    next
      case False
      with assms(1) have B2: "1 < B" by simp
      then have "(B + 1) mod B = 1" and "(B + 1) div B = 1" by (simp_all add: mod_Suc div_Suc)
      with v len sizes have "length (batch st) = 1" and "bulk_sizes (effects st) = [B]" by simp_all
      then show ?thesis using fl by auto
    qed
  qed
  from st ps exact plus_one fl show ?thesis by blast
qed

lemmas worker_run_defs = processJob_def processStream_def transform_def transform_body_def
  count_line_error_def write_batch_def flush_def emit_def current_progress_def result_of_def
  init_worker_def io_all_ok_def env_of_lines_def Let_def

lemmas parser_run_defs = getParser_def toLowerCase_def lower_char_def parseJsonLine_def
  parseCsvLine_def parseTextLine_def parseLineAuto_def validateParsedData_def trim_def is_ws_def
  show_nat.simps digit_char_def JSON_parse_stub_def good_line_def

lemma three_lines_valid: "count_kind ValidData JSON_parse_stub TextParser three_lines = 3"
  by (simp add: count_kind_def line_kind_def three_lines_def parser_run_defs)

lemma three_lines_logged: "filter (\<lambda>x. \<not> error_logged JSON_parse_stub TextParser x) three_lines = []"
  by (simp add: error_logged_def rejected_def line_kind_def three_lines_def parser_run_defs
        io_all_ok_def)

lemma three_lines_run:
  "map_option (\<lambda>st. bulk_sizes (effects st))
     (processStream batch_of_two JSON_parse_stub TextParser 7 1 three_lines io_all_ok) = Some [2, 1]"
  by (simp add: three_lines_def batch_of_two_def default_config_def worker_run_defs parser_run_defs)

theorem bulk_inserts_at_batch_boundaries_witness:
  "0 < (2::nat) \<and> jobBatchSize batch_of_two = int 2 \<and>
   filter (\<lambda>x. \<not> error_logged JSON_parse_stub TextParser x) three_lines = [] \<and>
   count_kind ValidData JSON_parse_stub TextParser three_lines = 2 + 1 \<and>
   map_option (\<lambda>st. bulk_sizes (effects st))
     (processStream batch_of_two JSON_parse_stub TextParser 7 1 three_lines io_all_ok) = Some [2, 1]"
proof -
  have b: "jobBatchSize batch_of_two = int 2"
    by (simp add: batch_of_two_def default_config_def)
  have l: "\<forall>x\<in>set three_lines. error_logged JSON_parse_stub TextParser x"
    using three_lines_logged by (simp add: filter_empty_conv)
  from bulk_inserts_at_batch_boundaries [OF _ b l, where fid = 7 and jobId = 1 and flush_io = io_all_ok]
  obtain st where "processStream batch_of_two JSON_parse_stub TextParser 7 1 three_lines io_all_ok =
      Some (flush 1 io_all_ok st)"
    and "count_kind ValidData JSON_parse_stub TextParser three_lines = 2 + 1 \<longrightarrow>
           bulk_sizes (effects (flush 1 io_all_ok st)) = [2, 1]"
    by auto
  with three_lines_valid b three_lines_logged show ?thesis by simp
qed

lemma stream_effects_run:
  assumes "run_lines cfg jp p fid jobId init_worker inputs = Some st0"
  shows "list_all stream_effect (effects st0)"
    and "list_all stream_effect (effects (flush jobId io st0))"
proof -
  from run_lines_counters[OF assms] show a: "list_all stream_effect (effects st0)"
    by (simp add: init_worker_fields)
  then show "list_all stream_effect (effects (flush jobId io st0))"
    by (simp add: flush_fields)
qed

lemma no_complete_in_stream: "list_all stream_effect es \<Longrightarrow> CompleteJob k r a \<notin> set es"
  by (auto simp: list_all_iff)

lemma processJob_complete_payload:
  assumes "processJob cfg jp j env = Some es" and "CompleteJob k r answered \<in> set es"
    and "env_file env = Some file"
  shows "\<exists>st0. run_lines cfg jp (getParser (contentType file)) (file_id file) (job_id j)
                 init_worker (env_inputs env) = Some st0 \<and>
               r = result_of (flush (job_id j) (env_flush env) st0)"
proof (cases "run_lines cfg jp (getParser (contentType file)) (file_id file) (job_id j)
                 init_worker (env_inputs env)")
  case None
  with assms show ?thesis
    by (auto simp: processJob_def Let_def split: if_splits)
next
  case (Some st0)
  from stream_effects_run(1)[OF Some] have n0: "CompleteJob k r answered \<notin> set (effects st0)"
    by (rule no_complete_in_stream)
  from stream_effects_run(2)[OF Some] have n1: "CompleteJob k r answered \<notin> set (effects (flush (job_id j) (env_flush env) st0))"
    by (rule no_complete_in_stream)
  from assms Some n0 n1 have "r = result_of (flush (job_id j) (env_flush env) st0)"
    by (auto simp: processJob_def Let_def split: if_splits)
  with Some show ?thesis by simp
qed

text \<open>
  Claim C4, as amended. For every \<open>completeJob\<close> call the worker makes, the counters it
  passes satisfy \<open>recordsInserted \<le> linesProcessed\<close>; and when no error-log write and
  no progress write failed during the run, \<open>recordsInserted + errorCount\<close> equals
  \<open>linesProcessed\<close> plus the number of lines rejected by the parser or by validation
  (so it is at most that sum). Empty lines do not enter the bound.
\<close>

theorem completed_job_counters:
  assumes "processJob cfg jp j env = Some es"
    and "CompleteJob k (ResultStats lp ri ec ok) answered \<in> set es"
    and "env_file env = Some file"
  shows "ri \<le> lp \<and>
         ((\<forall>x\<in>set (env_inputs env). writes_ok (snd x)) \<and> progressOk (env_flush env) \<longrightarrow>
            ri + ec = lp + rejected_lines jp (getParser (contentType file)) (env_inputs env))"
proof -
  let ?p = "getParser (contentType file)"
  let ?io = "env_flush env"
  from processJob_complete_payload[OF assms] obtain st0 where
    run: "run_lines cfg jp ?p (file_id file) (job_id j) init_worker (env_inputs env) = Some st0"
    and r: "ResultStats lp ri ec ok = result_of (flush (job_id j) ?io st0)"
    by blast
  let ?st = "flush (job_id j) ?io st0"
  from r have lp: "lp = linesProcessed st0"
    and ri: "ri = recordsInserted st0 + (if insertOk ?io then length (batch st0) else 0)"
    and ec: "ec = errorCount st0 + (if insertOk ?io \<and> progressOk ?io then 0 else length (batch st0))"
    by (simp_all add: result_of_def flush_fields)
  from run_lines_counters[OF run]
  have valid: "linesProcessed st0 = count_kind ValidData jp ?p (env_inputs env)"
    and le: "recordsInserted st0 + length (batch st0) \<le> linesProcessed st0"
    by (simp_all add: init_worker_fields)
  from lp ri le have first: "ri \<le> lp" by simp
  have second: "(\<forall>x\<in>set (env_inputs env). writes_ok (snd x)) \<and> progressOk ?io \<longrightarrow>
            ri + ec = lp + rejected_lines jp ?p (env_inputs env)"
  proof (intro impI, elim conjE)
    assume w: "\<forall>x\<in>set (env_inputs env). writes_ok (snd x)" and pf: "progressOk ?io"
    from run_lines_accounting[OF run w]
    have acc: "recordsInserted st0 + errorCount st0 + length (batch st0) =
                 length (env_inputs env) - count_kind EmptyLine jp ?p (env_inputs env)"
      by (simp add: init_worker_fields)
    from count_kinds_total[of jp ?p "env_inputs env"]
    have "length (env_inputs env) - count_kind EmptyLine jp ?p (env_inputs env) =
            count_kind ValidData jp ?p (env_inputs env) + rejected_lines jp ?p (env_inputs env)"
      by simp
    with acc valid lp ri ec pf
    show "ri + ec = lp + rejected_lines jp ?p (env_inputs env)" by simp
  qed
  from first second show ?thesis by blast
qed

lemma mixed_lines_run:
  "processJob default_config JSON_parse_stub claimed_job (env_of_lines mixed_lines) =
     Some [AddJobError 1 ''Line 2: Unexpected token'' True,
           InsertMany
             [\<lparr>r_fileId = 7, r_jobId = 1, r_lineNumber = 1, r_data = JObj [(''id'', JNum 1)],
               r_processedAt = 1000\<rparr>,
              \<lparr>r_fileId = 7, r_jobId = 1, r_lineNumber = 4, r_data = JObj [(''id'', JNum 1)],
               r_processedAt = 1000\<rparr>] True,
           UpdateJobProgress 1 \<lparr>p_linesProcessed = 2, p_recordsInserted = 2, p_errors = 1\<rparr> True,
           CompleteJob 1 (ResultStats 2 2 1 True) True,
           UpdateFileStatus 7 ''processed'' True]"
  by (simp add: mixed_lines_def claimed_job_def json_file_def default_config_def
        worker_run_defs parser_run_defs)

lemma mixed_lines_rejected:
  "rejected_lines JSON_parse_stub (getParser (contentType json_file))
     (env_inputs (env_of_lines mixed_lines)) = 1"
  by (simp add: rejected_lines_def count_kind_def line_kind_def mixed_lines_def json_file_def
        env_of_lines_def parser_run_defs)

lemma mixed_lines_writes:
  "filter (\<lambda>x. \<not> writes_ok (snd x)) (env_inputs (env_of_lines mixed_lines)) = []"
  by (simp add: writes_ok_def env_of_lines_def io_all_ok_def mixed_lines_def)

theorem completed_job_counters_witness:
  "processJob default_config JSON_parse_stub claimed_job (env_of_lines mixed_lines) =
     Some [AddJobError 1 ''Line 2: Unexpected token'' True,
           InsertMany
             [\<lparr>r_fileId = 7, r_jobId = 1, r_lineNumber = 1, r_data = JObj [(''id'', JNum 1)],
               r_processedAt = 1000\<rparr>,
              \<lparr>r_fileId = 7, r_jobId = 1, r_lineNumber = 4, r_data = JObj [(''id'', JNum 1)],
               r_processedAt = 1000\<rparr>] True,
           UpdateJobProgress 1 \<lparr>p_linesProcessed = 2, p_recordsInserted = 2, p_errors = 1\<rparr> True,
           CompleteJob 1 (ResultStats 2 2 1 True) True,
           UpdateFileStatus 7 ''processed'' True] \<and>
   env_file (env_of_lines mixed_lines) = Some json_file \<and>
   filter (\<lambda>x. \<not> writes_ok (snd x)) (env_inputs (env_of_lines mixed_lines)) = [] \<and>
   progressOk (env_flush (env_of_lines mixed_lines)) \<and>
   (2::nat) \<le> 2 \<and>
   (2::nat) + 1 = 2 + rejected_lines JSON_parse_stub (getParser (contentType json_file))
                        (env_inputs (env_of_lines mixed_lines))"
proof -
  have f: "env_file (env_of_lines mixed_lines) = Some json_file"
    by (simp add: env_of_lines_def)
  have c: "CompleteJob 1 (ResultStats 2 2 1 True) True \<in>
             set [AddJobError 1 ''Line 2: Unexpected token'' True,
           InsertMany
             [\<lparr>r_fileId = 7, r_jobId = 1, r_lineNumber = 1, r_data = JObj [(''id'', JNum 1)],
               r_processedAt = 1000\<rparr>,
              \<lparr>r_fileId = 7, r_jobId = 1, r_lineNumber = 4, r_data = JObj [(''id'', JNum 1)],
               r_processedAt = 1000\<rparr>] True,
           UpdateJobProgress 1 \<lparr>p_linesProcessed = 2, p_recordsInserted = 2, p_errors = 1\<rparr> True,
           CompleteJob 1 (ResultStats 2 2 1 True) True,
           UpdateFileStatus 7 ''processed'' True]"
    by simp
  have w: "\<forall>x\<in>set (env_inputs (env_of_lines mixed_lines)). writes_ok (snd x)"
    using mixed_lines_writes by (simp add: filter_empty_conv)
  have p: "progressOk (env_flush (env_of_lines mixed_lines))"
    by (simp add: env_of_lines_def io_all_ok_def)
  from completed_job_counters [OF mixed_lines_run c f] w p
  have "(2::nat) \<le> 2 \<and>
        (2::nat) + 1 = 2 + rejected_lines JSON_parse_stub (getParser (contentType json_file))
                        (env_inputs (env_of_lines mixed_lines))"
    by blast
  with mixed_lines_run f mixed_lines_writes p show ?thesis by simp
qed

theorem counter_bound_counterexample:
  "processJob default_config JSON_parse_stub claimed_job (env_of_lines [''not json'']) =
     Some [AddJobError 1 ''Line 1: Unexpected token'' True,
           CompleteJob 1 (ResultStats 0 0 1 True) True,
           UpdateFileStatus 7 ''processed'' True] \<and>
   empty_lines (env_inputs (env_of_lines [''not json''])) = 0 \<and>
   \<not> counters_within_spec_bound (ResultStats 0 0 1 True)
       (empty_lines (env_inputs (env_of_lines [''not json''])))"
  by (simp add: claimed_job_def json_file_def default_config_def empty_lines_def
        worker_run_defs parser_run_defs)

text \<open>
  Claim C5, as amended. When the file record is found, the download starts, every
  rejected line is logged and the source stream ends without an error, the pipeline
  returns and \<open>processJob\<close> makes, after the pipeline's own calls, first the call
  \<open>completeJob(jobId, {linesProcessed, recordsInserted, errorCount, success: true})\<close>
  and, only when that call has returned, the file-status update to \<open>processed\<close>.
\<close>

theorem complete_then_file_status:
  assumes "env_file env = Some file" and "env_downloadOk env" and "\<not> env_streamFails env"
    and "\<forall>x\<in>set (env_inputs env). error_logged jp (getParser (contentType file)) x"
  shows "\<exists>st. processStream cfg jp (getParser (contentType file)) (file_id file) (job_id j)
                (env_inputs env) (env_flush env) = Some st \<and>
              list_all stream_effect (effects st) \<and>
              processJob cfg jp j env =
                Some (effects st @
                      CompleteJob (job_id j)
                        (ResultStats (linesProcessed st) (recordsInserted st) (errorCount st) True)
                        (env_completeOk env) #
                      (if env_completeOk env
                       then UpdateFileStatus (fileId j) ''processed'' (env_statusOk env) #
                            (if env_statusOk env then []
                             else [FailJob (job_id j) (Thrown (env_thrown env))])
                       else [FailJob (job_id j) (Thrown (env_thrown env))]))"
proof -
  let ?p = "getParser (contentType file)"
  from assms(4) obtain st0 where
    run: "run_lines cfg jp ?p (file_id file) (job_id j) init_worker (env_inputs env) = Some st0"
    using run_lines_returns[of cfg jp ?p "file_id file" "job_id j" init_worker "env_inputs env"]
    by auto
  let ?st = "flush (job_id j) (env_flush env) st0"
  have ps: "processStream cfg jp ?p (file_id file) (job_id j) (env_inputs env) (env_flush env) = Some ?st"
    using run by (simp add: processStream_def)
  have se: "list_all stream_effect (effects ?st)"
    by (rule stream_effects_run(2)[OF run])
  have pj: "processJob cfg jp j env =
                Some (effects ?st @
                      CompleteJob (job_id j)
                        (ResultStats (linesProcessed ?st) (recordsInserted ?st) (errorCount ?st) True)
                        (env_completeOk env) #
                      (if env_completeOk env
                       then UpdateFileStatus (fileId j) ''processed'' (env_statusOk env) #
                            (if env_statusOk env then []
                             else [FailJob (job_id j) (Thrown (env_thrown env))])
                       else [FailJob (job_id j) (Thrown (env_thrown env))]))"
    using assms(1,2,3) run by (simp add: processJob_def result_of_def Let_def)
  from ps se pj show ?thesis by blast
qed

lemma good_line_run:
  "processJob default_config JSON_parse_stub claimed_job (env_of_lines [good_line]) =
     Some [InsertMany
             [\<lparr>r_fileId = 7, r_jobId = 1, r_lineNumber = 1, r_data = JObj [(''id'', JNum 1)],
               r_processedAt = 1000\<rparr>] True,
           UpdateJobProgress 1 \<lparr>p_linesProcessed = 1, p_recordsInserted = 1, p_errors = 0\<rparr> True,
           CompleteJob 1 (ResultStats 1 1 0 True) True,
           UpdateFileStatus 7 ''processed'' True]"
  by (simp add: claimed_job_def json_file_def default_config_def worker_run_defs parser_run_defs)

lemma good_line_logged:
  "filter (\<lambda>x. \<not> error_logged JSON_parse_stub (getParser (contentType json_file)) x)
     (env_inputs (env_of_lines [good_line])) = []"
  by (simp add: error_logged_def rejected_def line_kind_def json_file_def env_of_lines_def
        io_all_ok_def parser_run_defs)

theorem complete_then_file_status_witness:
  "env_file (env_of_lines [good_line]) = Some json_file \<and>
   env_downloadOk (env_of_lines [good_line]) \<and> \<not> env_streamFails (env_of_lines [good_line]) \<and>
   filter (\<lambda>x. \<not> error_logged JSON_parse_stub (getParser (contentType json_file)) x)
     (env_inputs (env_of_lines [good_line])) = [] \<and>
   processJob default_config JSON_parse_stub claimed_job (env_of_lines [good_line]) =
     Some [InsertMany
             [\<lparr>r_fileId = 7, r_jobId = 1, r_lineNumber = 1, r_data = JObj [(''id'', JNum 1)],
               r_processedAt = 1000\<rparr>] True,
           UpdateJobProgress 1 \<lparr>p_linesProcessed = 1, p_recordsInserted = 1, p_errors = 0\<rparr> True,
           CompleteJob 1 (ResultStats 1 1 0 True) True,
           UpdateFileStatus 7 ''processed'' True]"
proof -
  have f: "env_file (env_of_lines [good_line]) = Some json_file"
    and d: "env_downloadOk (env_of_lines [good_line])"
    and s: "\<not> env_streamFails (env_of_lines [good_line])"
    by (simp_all add: env_of_lines_def)
  have l: "\<forall>x\<in>set (env_inputs (env_of_lines [good_line])).
             error_logged JSON_parse_stub (getParser (contentType json_file)) x"
    using good_line_logged by (simp add: filter_empty_conv)
  from complete_then_file_status [OF f d s l, where cfg = default_config and j = claimed_job]
    f d s good_line_logged good_line_run
  show ?thesis by simp
qed

theorem file_status_order_counterexample:
  "processJob default_config JSON_parse_stub claimed_job (env_of_lines [good_line]) =
     Some [InsertMany
             [\<lparr>r_fileId = 7, r_jobId = 1, r_lineNumber = 1, r_data = JObj [(''id'', JNum 1)],
               r_processedAt = 1000\<rparr>] True,
           UpdateJobProgress 1 \<lparr>p_linesProcessed = 1, p_recordsInserted = 1, p_errors = 0\<rparr> True,
           CompleteJob 1 (ResultStats 1 1 0 True) True,
           UpdateFileStatus 7 ''processed'' True] \<and>
   map_option status_before_complete
     (processJob default_config JSON_parse_stub claimed_job (env_of_lines [good_line])) = Some False"
  by (simp add: good_line_run status_before_complete_def)

section \<open>Properties of the HTTP routes\<close>

lemma hex_number_all_hex:
  "list_all is_hex_char s \<Longrightarrow> \<exists>k. hex_number acc s = Some k"
  by (induction s arbitrary: acc) (auto simp: is_hex_char_def)

lemma ObjectId_well_formed: "well_formed_id s \<Longrightarrow> \<exists>k. ObjectId s = Some k"
  using hex_number_all_hex[of s 0] by (simp add: well_formed_id_def ObjectId_def)

lemma wrong_length_gets_400:
  "length s \<noteq> 24 \<Longrightarrow>
     post_process files new_id now s db = (Response 400 (ErrorBody ''Invalid fileId format''), db) \<and>
     get_job s db = Response 400 (ErrorBody ''Invalid jobId format'')"
  by (simp add: post_process_def get_job_def)

lemma unknown_id_gets_404:
  assumes "well_formed_id s" and "ObjectId s = Some k"
  shows "getFileById k files = None \<Longrightarrow>
           post_process files new_id now s db = (Response 404 (ErrorIdBody ''File not found'' s), db)"
    and "getJobById k db = None \<Longrightarrow> get_job s db = Response 404 (ErrorIdBody ''Job not found'' s)"
  using assms by (auto simp: post_process_def get_job_def well_formed_id_def)

lemma not_hex_gets_500:
  assumes "length s = 24" and "\<not> list_all is_hex_char s"
  shows "post_process files new_id now s db =
           (Response 500 (ErrorMessageBody ''Failed to create processing job'' ObjectId_error), db)"
    and "get_job s db = Response 500 (ErrorMessageBody ''Failed to retrieve job'' ObjectId_error)"
proof -
  have "\<not> list_all is_hex_char t \<Longrightarrow> hex_number acc t = None" for t acc
    by (induction t arbitrary: acc) (auto simp: is_hex_char_def split: option.splits)
  with assms have "ObjectId s = None" by (simp add: ObjectId_def)
  with assms(1) show "post_process files new_id now s db =
           (Response 500 (ErrorMessageBody ''Failed to create processing job'' ObjectId_error), db)"
    and "get_job s db = Response 500 (ErrorMessageBody ''Failed to retrieve job'' ObjectId_error)"
    by (auto simp: post_process_def get_job_def)
qed

lemma hex_of_5: "toHexString 5 = ''000000000000000000000005''"
  by code_simp

lemma known_file_gets_201:
  "fst (post_process [json_file] 5 100 ''000000000000000000000007'' []) =
     Response 201
       (JobCreatedBody ''000000000000000000000005'' ''000000000000000000000007'' Queued 100
          ''Job created and queued for processing'')"
  by (simp add: post_process_def ObjectId_def hex_value_def hex_digits_def lower_char_def
        getFileById_def json_file_def createJob_def hex_of_5 Let_def)

lemma unknown_job_gets_404:
  "get_job ''000000000000000000000000'' done_db =
     Response 404 (ErrorIdBody ''Job not found'' ''000000000000000000000000'')"
  by (simp add: get_job_def ObjectId_def hex_value_def hex_digits_def lower_char_def
        getJobById_def done_db_def createJob_def claimJob_def claim_update_def completeJob_def
        default_config_def Let_def)

text \<open>
  Claim C6, at the input where the routes depart from it. The identifier
  \<open>zzzzzzzzzzzzzzzzzzzzzzzz\<close> has 24 characters, none of them hexadecimal. Both
  routes test the length only, so it passes the format test; the \<open>ObjectId\<close>
  constructor then throws inside the model function and the handler's \<open>catch\<close>
  answers 500, where the claim says 400.
\<close>

theorem non_hex_id_gets_500:
  "\<not> well_formed_id ''zzzzzzzzzzzzzzzzzzzzzzzz'' \<and>
   post_process files new_id now ''zzzzzzzzzzzzzzzzzzzzzzzz'' db =
     (Response 500 (ErrorMessageBody ''Failed to create processing job'' ObjectId_error), db) \<and>
   get_job ''zzzzzzzzzzzzzzzzzzzzzzzz'' db =
     Response 500 (ErrorMessageBody ''Failed to retrieve job'' ObjectId_error)"
  by (simp add: well_formed_id_def is_hex_char_def post_process_def get_job_def ObjectId_def
        hex_value_def hex_digits_def lower_char_def)

lemma hex_of_9: "toHexString 9 = ''000000000000000000000009''"
  by code_simp

lemma size_limit_text: "show_int 5368709120 = ''5368709120''"
  by (simp add: show_int_def show_nat.simps digit_char_def)

lemmas upload_run_defs = post_upload_def init_upload_def on_file_def on_limit_def on_close_def
  on_put_settled_def settle_def close_resume_def close_catch_def on_busboy_error_def send_def
  uploaded_response_def createFile_def default_config_def multipart_header_def Let_def

text \<open>
  Claim C8, at the input where the route departs from it. A file part of an allowed
  type arrives, the parser's \<open>limit\<close> callback runs and records the size error, and
  the put of the truncated stream succeeds. The upload continuation does not consult
  \<open>uploadError\<close>: it creates the file record and answers 200 \<open>uploaded\<close>, whether
  the parser closes before or after the put settles. The claim says 500
  \<open>Upload failed\<close> and no file record.
\<close>

theorem size_limit_upload_still_recorded:
  "uploadError (post_upload default_config multipart_header oversize_close_first []) =
     Some ''File size exceeds maximum allowed size of 5368709120 bytes'' \<and>
   sent (post_upload default_config multipart_header oversize_close_first []) =
     Some (Response 200
             (UploadedBody ''000000000000000000000009'' ''uploads/2024-01-01/1-abc123-big.txt''
                ''uploaded'' ''big.txt'' 5368709120 ''text/plain'' 2000)) \<and>
   map file_id (catalog (post_upload default_config multipart_header oversize_close_first [])) = [9] \<and>
   sent (post_upload default_config multipart_header oversize_put_first []) =
     Some (Response 200
             (UploadedBody ''000000000000000000000009'' ''uploads/2024-01-01/1-abc123-big.txt''
                ''uploaded'' ''big.txt'' 5368709120 ''text/plain'' 2000)) \<and>
   map file_id (catalog (post_upload default_config multipart_header oversize_put_first [])) = [9]"
  by (simp add: oversize_close_first_def oversize_put_first_def upload_run_defs hex_of_9
        size_limit_text)

end
